theory Spec2Isabelle
  imports Complex_Main "HOL-Library.Sublist" "HOL-Library.AList"
begin

section \<open>The OTV constraints engine (src/constraints.ts)\<close>

text \<open>
  A shallow embedding of class \<open>OTV\<close>. Conventions:
  \<^item> a JavaScript number is a \<open>real\<close>: finite, and no NaN. The one place where the
    source coerces an arbitrary value with \<open>Number(...)\<close> (the rank of the cross-network
    response) is modelled with an explicit NaN (\<open>jsnum\<close>). Arithmetic is double
    arithmetic: every sum, difference, product and quotient of the source is rounded to
    binary64 (\<open>fl\<close>), and a decimal literal is the double nearest to it. Comparisons
    are exact;
  \<^item> an awaited collaborator call (chain-data reader, storage, HTTP client) is a field of
    the record \<open>world\<close>, and every call the code performs is written, in order, to a
    list of \<open>effect\<close>s that each function returns next to its result. Calls of
    \<open>logger\<close> are not modelled;
  \<^item> a \<open>[value, error]\<close> result pair is a pair \<open>real \<times> string option\<close>, \<open>None\<close> for
    a \<open>null\<close> error. A \<open>null\<close> value slot is the number 0, which is what
    \<open>null\<close> becomes in every subtraction and comparison the source applies to it;
  \<^item> an exception is a value: functions that can throw return \<open>exn + 'a\<close>;
  \<^item> a template string is the list of its parts (\<open>reason\<close>); \<open>render\<close> turns it into
    the string, given the built-in conversions of the language.
\<close>

subsection \<open>JavaScript values\<close>

datatype json = JNull | JBool bool | JNum real | JStr string | JArr "json list"
  | JObj "(string \<times> json) list"

datatype jsnum = NaN | Num real

datatype exn = TypeError | Thrown string

text \<open>Built-in conversions of the language, not code of the repository: parameters.\<close>

record jsbuiltins =
  stringToNumber :: "string \<Rightarrow> jsnum"
  numberToString :: "real \<Rightarrow> string"

text \<open>\<open>Array.prototype.join\<close>.\<close>

fun join :: "string \<Rightarrow> string list \<Rightarrow> string" where
  "join sep [] = []"
| "join sep [x] = x"
| "join sep (x # y # ys) = x @ sep @ join sep (y # ys)"

text \<open>
  \<open>String(v)\<close> for a value read from parsed JSON; \<open>None\<close> is \<open>undefined\<close>. Inside
  \<open>join\<close> a \<open>null\<close> element is the empty string.
\<close>

fun toStringJ :: "jsbuiltins \<Rightarrow> json \<Rightarrow> string" where
  "toStringJ b JNull = ''null''"
| "toStringJ b (JBool v) = (if v then ''true'' else ''false'')"
| "toStringJ b (JNum x) = numberToString b x"
| "toStringJ b (JStr s) = s"
| "toStringJ b (JArr xs) =
     join '','' (map (\<lambda>x. if x = JNull then [] else toStringJ b x) xs)"
| "toStringJ b (JObj kvs) = ''[object Object]''"

definition toStringV :: "jsbuiltins \<Rightarrow> json option \<Rightarrow> string" where
  "toStringV b v = (case v of None \<Rightarrow> ''undefined'' | Some j \<Rightarrow> toStringJ b j)"

text \<open>\<open>Number(v)\<close>: \<open>undefined\<close> is NaN, \<open>null\<close> is 0, an array or object goes through
  its string.\<close>

fun toNumber :: "jsbuiltins \<Rightarrow> json option \<Rightarrow> jsnum" where
  "toNumber b None = NaN"
| "toNumber b (Some JNull) = Num 0"
| "toNumber b (Some (JBool v)) = Num (if v then 1 else 0)"
| "toNumber b (Some (JNum x)) = Num x"
| "toNumber b (Some (JStr s)) = stringToNumber b s"
| "toNumber b (Some (JArr xs)) = stringToNumber b (toStringJ b (JArr xs))"
| "toNumber b (Some (JObj kvs)) = stringToNumber b (toStringJ b (JObj kvs))"

text \<open>\<open>a < x\<close> for a coerced \<open>a\<close>: every comparison with NaN is false.\<close>

fun jsLess :: "jsnum \<Rightarrow> real \<Rightarrow> bool" where
  "jsLess NaN x = False"
| "jsLess (Num a) x = (a < x)"

text \<open>\<open>!!v\<close> for a value read from parsed JSON.\<close>

fun truthy :: "json option \<Rightarrow> bool" where
  "truthy None = False"
| "truthy (Some JNull) = False"
| "truthy (Some (JBool v)) = v"
| "truthy (Some (JNum x)) = (x \<noteq> 0)"
| "truthy (Some (JStr s)) = (s \<noteq> [])"
| "truthy (Some (JArr xs)) = True"
| "truthy (Some (JObj kvs)) = True"

text \<open>\<open>!!s\<close> for \<open>string | null | undefined\<close>: the empty string is falsy.\<close>

definition truthyStr :: "string option \<Rightarrow> bool" where
  "truthyStr s = (case s of None \<Rightarrow> False | Some t \<Rightarrow> t \<noteq> [])"

text \<open>
  \<open>d.k\<close> for \<open>k\<close> one of \<open>invalidityReasons\<close>, \<open>rank\<close>: reading a property of
  \<open>null\<close> throws, an object gives the property or \<open>undefined\<close>, every other value
  has no property of these names.
\<close>

fun getProp :: "json \<Rightarrow> string \<Rightarrow> exn + json option" where
  "getProp JNull k = Inl TypeError"
| "getProp (JObj kvs) k = Inr (map_of kvs k)"
| "getProp (JBool v) k = Inr None"
| "getProp (JNum x) k = Inr None"
| "getProp (JStr s) k = Inr None"
| "getProp (JArr xs) k = Inr None"

subsection \<open>Double arithmetic\<close>

text \<open>
  Rounding to the nearest binary64 number, ties to the even significand: a positive
  \<open>x\<close> with \<open>2\<^sup>e \<le> x < 2\<^sup>e\<^sup>+\<^sup>1\<close> goes to the nearest multiple of
  \<open>2\<^sup>e\<^sup>-\<^sup>5\<^sup>2\<close>. The exponent is unbounded: overflow to infinity and the subnormal
  numbers are not modelled.
\<close>

definition rne :: "real \<Rightarrow> int" where
  "rne x = (let f = \<lfloor>x\<rfloor>; d = x - of_int f
            in if d < 1 / 2 then f else if d > 1 / 2 then f + 1
               else if even f then f else f + 1)"

definition fl :: "real \<Rightarrow> real" where
  "fl x = (if x = 0 then 0
           else (let q = 2 powr of_int (\<lfloor>log 2 \<bar>x\<bar>\<rfloor> - 52)
                 in sgn x * of_int (rne (\<bar>x\<bar> / q)) * q))"

text \<open>The operators \<open>+\<close>, \<open>-\<close>, \<open>*\<close> and \<open>/\<close> on doubles.\<close>

definition fadd :: "real \<Rightarrow> real \<Rightarrow> real" where
  "fadd x y = fl (x + y)"

definition fsub :: "real \<Rightarrow> real \<Rightarrow> real" where
  "fsub x y = fl (x - y)"

definition fmul :: "real \<Rightarrow> real \<Rightarrow> real" where
  "fmul x y = fl (x * y)"

definition fdiv :: "real \<Rightarrow> real \<Rightarrow> real" where
  "fdiv x y = fl (x / y)"

subsection \<open>Reasons\<close>

datatype part = Str string | NumP real | Nums "real list" | Js "json option"

type_synonym reason = "part list"

fun renderPart :: "jsbuiltins \<Rightarrow> part \<Rightarrow> string" where
  "renderPart b (Str s) = s"
| "renderPart b (NumP x) = numberToString b x"
| "renderPart b (Nums xs) = join '','' (map (numberToString b) xs)"
| "renderPart b (Js v) = toStringV b v"

definition render :: "jsbuiltins \<Rightarrow> reason \<Rightarrow> string" where
  "render b r = concat (map (renderPart b) r)"

subsection \<open>Data model\<close>

record candidate =
  name :: string
  stash :: string
  kusamaStash :: "string option"
  version :: string
  discoveredAt :: real
  onlineSince :: real
  offlineSince :: real
  offlineAccumulated :: real
  skipSelfStake :: bool
  unclaimedEras :: "real list option"
  bonded :: real
  faults :: real
  inclusion :: real
  spanInclusion :: real
  rank :: real
  nominatedAt :: real
  identity :: string

text \<open>The score object of lines 455-469. A field that shares its name with a field of
  \<open>candidate\<close> carries the prefix \<open>sc_\<close> here and \<open>r_\<close> in the ranked projection.\<close>

record score =
  total :: real
  aggregate :: real
  sc_inclusion :: real
  sc_spanInclusion :: real
  discovered :: real
  nominated :: real
  sc_rank :: real
  unclaimed :: real
  sc_bonded :: real
  sc_faults :: real
  offline :: real
  randomness :: real
  updated :: real

text \<open>The ranked projection of lines 488-500; its field \<open>aggregate\<close> (here
  \<open>r_aggregate\<close>) holds the score object.\<close>

record ranked =
  r_aggregate :: score
  r_discoveredAt :: real
  r_rank :: real
  r_unclaimedEras :: "real list option"
  r_inclusion :: real
  r_spanInclusion :: real
  r_name :: string
  r_stash :: string
  r_identity :: string
  r_nominatedAt :: real
  r_bonded :: real

text \<open>The fields of the \<open>OTV\<close> object (lines 41-60).\<close>

record otv =
  skipConnectionTime :: bool
  skipIdentity :: bool
  skipStakedDesitnation :: bool
  skipClientUpgrade :: bool
  skipUnclaimed :: bool
  minSelfStake :: real
  commission :: real
  unclaimedEraThreshold :: real
  validCache :: "ranked list"
  invalidCache :: "reason list"

record stats =
  st_absMin :: real
  st_absMax :: real
  st_mean :: real
  st_median :: real
  st_q10 :: real
  st_q25 :: real
  st_q75 :: real
  st_q90 :: real
  st_std :: real

text \<open>
  Everything the class reads from outside itself. The collaborators (\<open>chaindata\<close>,
  \<open>db\<close>, \<open>axios\<close>), the helpers of \<open>./util\<close> and \<open>./score\<close>, the package
  \<open>semver\<close> and the hash function are not among the source files: they are parameters.
  A read gives the same answer whenever it is repeated during one call.
  \<open>getLatestRelease\<close> is the name of the latest release, \<open>None\<close> without a record;
  \<open>semver_coerce\<close> and \<open>semver_clean\<close> give \<open>None\<close> where the library returns
  \<open>null\<close>, and \<open>semver_gte\<close> compares two versions that were read;
  \<open>now\<close> is the clock; \<open>axios_get\<close> gives \<open>None\<close> where the request throws and the
  parsed body otherwise; \<open>random i\<close> is the result of the \<open>i\<close>-th call of
  \<open>Math.random\<close>; \<open>scaled\<close> and \<open>getStats\<close> return finite numbers.
\<close>

record world =
  getValidators :: "string list"
  formatAddress :: "string \<Rightarrow> string"
  getLatestRelease :: "string option"
  semver_coerce :: "string \<Rightarrow> string option"
  semver_clean :: "string \<Rightarrow> string option"
  semver_gte :: "string \<Rightarrow> string \<Rightarrow> bool"
  now :: real
  hasIdentity :: "string \<Rightarrow> bool \<times> bool"
  getIdentity :: "string \<Rightarrow> string"
  blake2AsHex :: "string \<Rightarrow> string"
  destinationIsStaked :: "string \<Rightarrow> bool"
  getCommission :: "string \<Rightarrow> real \<times> string option"
  getBondedAmount :: "string \<Rightarrow> real \<times> string option"
  getActiveEraIndex :: "real \<times> string option"
  KOTVBackendEndpoint :: string
  axios_get :: "string \<Rightarrow> json option"
  builtins :: jsbuiltins
  random :: "nat \<Rightarrow> real"
  scaled :: "real \<Rightarrow> real list \<Rightarrow> real"
  getStats :: "real list \<Rightarrow> stats"

datatype effect =
    GetValidators
  | GetLatestRelease
  | HasIdentity string
  | GetIdentity string
  | DestinationIsStaked string
  | GetCommission string
  | GetBondedAmount string
  | GetActiveEraIndex
  | AxiosGet string
  | SetValidatorScoreMetadata "stats list" "real list" real
  | SetValidatorScore string score

text \<open>Modelled from the spec: the constant \<open>WEEK\<close> of \<open>./constants\<close>, which is not among
  the source files; the spec calls it one week, and the source divides durations by 1000
  and by 60 to print minutes, so it is one week in milliseconds.\<close>

definition WEEK :: real where
  "WEEK = 604800000"

subsection \<open>populateIdentityHashTable (lines 99-114)\<close>

text \<open>The \<open>Map\<close> is an association list in insertion order; \<open>AList.update\<close> is
  \<open>Map.prototype.set\<close>: an existing key keeps its place, a new one goes to the end.
  \<open>map.get(identityHash) || 0\<close> is 0 for a missing key.\<close>

fun populateLoop ::
  "world \<Rightarrow> candidate list \<Rightarrow> (string \<times> nat) list \<Rightarrow> effect list \<times> (string \<times> nat) list" where
  "populateLoop w [] m = ([], m)"
| "populateLoop w (candidate # rest) m =
     (let identityString = getIdentity w (stash candidate);
          identityHash = blake2AsHex w identityString;
          prevValue = (case map_of m identityHash of None \<Rightarrow> 0 | Some v \<Rightarrow> v);
          (es, m') = populateLoop w rest (AList.update identityHash (prevValue + 1) m)
      in (GetIdentity (stash candidate) # es, m'))"

definition populateIdentityHashTable ::
  "world \<Rightarrow> candidate list \<Rightarrow> effect list \<times> (string \<times> nat) list" where
  "populateIdentityHashTable w candidates = populateLoop w candidates []"

subsection \<open>checkSingleCandidate (lines 141-297)\<close>

text \<open>
  The body is a sequence of blocks, each of which returns from the function, throws, or
  falls through to the next one.
\<close>

datatype step = Next | Return "bool \<times> reason" | Raise exn

text \<open>Lines 159-161.\<close>

definition onlineBlock :: "candidate \<Rightarrow> effect list \<times> step" where
  "onlineBlock candidate =
     (if onlineSince candidate = 0 \<or> offlineSince candidate \<noteq> 0
      then ([], Return (False,
              [Str (name candidate), Str '' offline. Offline since '',
               NumP (offlineSince candidate), Str ''.'']))
      else ([], Next))"

text \<open>Lines 164-167.\<close>

definition intentionBlock :: "world \<Rightarrow> candidate \<Rightarrow> effect list \<times> step" where
  "intentionBlock w candidate =
     (let validators = getValidators w in
      if \<not> (formatAddress w (stash candidate) \<in> set validators)
      then ([GetValidators], Return (False,
              [Str (name candidate), Str '' does not have a validate intention'']))
      else ([GetValidators], Next))"

text \<open>Lines 170-178. \<open>semver.gte\<close> throws a \<open>TypeError\<close> when an argument is
  \<open>null\<close>, and it is called before \<open>skipClientUpgrade\<close> is looked at.\<close>

definition versionBlock :: "otv \<Rightarrow> world \<Rightarrow> candidate \<Rightarrow> effect list \<times> step" where
  "versionBlock this w candidate =
     (case getLatestRelease w of
        None \<Rightarrow> ([GetLatestRelease], Next)
      | Some latestName \<Rightarrow>
          (case (semver_coerce w (version candidate), semver_clean w latestName) of
             (Some nodeVersion, Some latestVersion) \<Rightarrow>
               (let isUpgraded = semver_gte w nodeVersion latestVersion in
                if \<not> isUpgraded \<and> \<not> skipClientUpgrade this
                then ([GetLatestRelease], Return (False,
                        [Str (name candidate), Str '' is not running the latest client code.'']))
                else ([GetLatestRelease], Next))
           | _ \<Rightarrow> ([GetLatestRelease], Raise TypeError)))"

text \<open>Lines 181-186.\<close>

definition connectionBlock :: "otv \<Rightarrow> world \<Rightarrow> candidate \<Rightarrow> effect list \<times> step" where
  "connectionBlock this w candidate =
     (if \<not> skipConnectionTime this
      then (if fsub (now w) (discoveredAt candidate) < WEEK
            then ([], Return (False,
                    [Str (name candidate), Str '' hasn't been connected for minimum length.'']))
            else ([], Next))
      else ([], Next))"

text \<open>Lines 189-210. \<open>identityHashTable.get(idHash) || 0\<close> is 0 for a missing digest.\<close>

definition identityBlock ::
  "otv \<Rightarrow> world \<Rightarrow> candidate \<Rightarrow> (string \<times> nat) list \<Rightarrow> effect list \<times> step" where
  "identityBlock this w candidate identityHashTable =
     (if \<not> skipIdentity this
      then (let (hasId, verified) = hasIdentity w (stash candidate) in
            if \<not> hasId
            then ([HasIdentity (stash candidate)], Return (False,
                    [Str (name candidate), Str '' does not have an identity set.'']))
            else if \<not> verified
            then ([HasIdentity (stash candidate)], Return (False,
                    [Str (name candidate),
                     Str '' has an identity but is not verified by registrar.'']))
            else (let idString = getIdentity w (stash candidate);
                      idHash = blake2AsHex w idString;
                      numIds = (case map_of identityHashTable idHash of
                                  None \<Rightarrow> 0 | Some n \<Rightarrow> n)
                  in if numIds = 0 \<or> numIds > 2
                     then ([HasIdentity (stash candidate), GetIdentity (stash candidate)],
                           Return (False,
                             [Str (name candidate),
                              Str '' has too many candidates in the set with same identity. Number: '',
                              NumP (real numIds), Str '' Hash: '', Str idHash]))
                     else ([HasIdentity (stash candidate), GetIdentity (stash candidate)],
                           Next)))
      else ([], Next))"

text \<open>Lines 213-221. The literal \<open>0.02\<close> is the double nearest to it.\<close>

definition uptimeBlock :: "candidate \<Rightarrow> effect list \<times> step" where
  "uptimeBlock candidate =
     (let totalOffline = fdiv (offlineAccumulated candidate) WEEK in
      if totalOffline > fl 0.02
      then ([], Return (False,
              [Str (name candidate), Str '' has been offline '',
               NumP (fdiv (fdiv (offlineAccumulated candidate) 1000) 60),
               Str '' minutes this week.'']))
      else ([], Next))"

text \<open>Lines 224-230.\<close>

definition destinationBlock :: "otv \<Rightarrow> world \<Rightarrow> candidate \<Rightarrow> effect list \<times> step" where
  "destinationBlock this w candidate =
     (if \<not> skipStakedDesitnation this
      then (let isStaked = destinationIsStaked w (stash candidate) in
            if \<not> isStaked
            then ([DestinationIsStaked (stash candidate)], Return (False,
                    [Str (name candidate),
                     Str '' does not have reward destination set to Staked'']))
            else ([DestinationIsStaked (stash candidate)], Next))
      else ([], Next))"

text \<open>Lines 233-242. \<open>if (err)\<close> tests the error for truthiness.\<close>

definition commissionBlock :: "otv \<Rightarrow> world \<Rightarrow> candidate \<Rightarrow> effect list \<times> step" where
  "commissionBlock this w candidate =
     (let (commission', err) = getCommission w (stash candidate) in
      if truthyStr err
      then ([GetCommission (stash candidate)], Return (False,
              [Str (name candidate), Str '' '', Str (the err)]))
      else if commission' > commission this
      then ([GetCommission (stash candidate)], Return (False,
              [Str (name candidate),
               Str '' commission is set higher than the maximum allowed. Set: '',
               NumP commission', Str '' Allowed: '', NumP (commission this)]))
      else ([GetCommission (stash candidate)], Next))"

text \<open>Lines 244-256.\<close>

definition selfStakeBlock :: "otv \<Rightarrow> world \<Rightarrow> candidate \<Rightarrow> effect list \<times> step" where
  "selfStakeBlock this w candidate =
     (if \<not> skipSelfStake candidate
      then (let (bondedAmt, err2) = getBondedAmount w (stash candidate) in
            if truthyStr err2
            then ([GetBondedAmount (stash candidate)], Return (False,
                    [Str (name candidate), Str '' '', Str (the err2)]))
            else if bondedAmt < minSelfStake this
            then ([GetBondedAmount (stash candidate)], Return (False,
                    [Str (name candidate),
                     Str '' has less than the minimum amount bonded: '',
                     NumP bondedAmt, Str '' is bonded.'']))
            else ([GetBondedAmount (stash candidate)], Next))
      else ([], Next))"

text \<open>Lines 258-270. \<open>err3\<close> is bound and never read.\<close>

definition unclaimedBlock :: "otv \<Rightarrow> world \<Rightarrow> candidate \<Rightarrow> effect list \<times> step" where
  "unclaimedBlock this w candidate =
     (if \<not> skipUnclaimed this
      then (let (currentEra, err3) = getActiveEraIndex w;
                threshold = fsub (fsub currentEra (unclaimedEraThreshold this)) 1
            in case unclaimedEras candidate of
                 None \<Rightarrow> ([GetActiveEraIndex], Next)
               | Some eras \<Rightarrow>
                   if \<not> list_all (\<lambda>era. era > threshold) eras
                   then ([GetActiveEraIndex], Return (False,
                           [Str (name candidate), Str '' has unclaimed eras: '', Nums eras,
                            Str '' prior to era: '', NumP (fadd threshold 1)]))
                   else ([GetActiveEraIndex], Next))
      else ([], Next))"

text \<open>Lines 272-294. Whatever is thrown inside \<open>try\<close> is caught, and the function goes
  on to its last line.\<close>

definition kusamaBlock :: "world \<Rightarrow> candidate \<Rightarrow> effect list \<times> step" where
  "kusamaBlock w candidate =
     (if truthyStr (kusamaStash candidate)
      then (let url = KOTVBackendEndpoint w @ ''/candidate/'' @ the (kusamaStash candidate) in
            case axios_get w url of
              None \<Rightarrow> ([AxiosGet url], Next)
            | Some data \<Rightarrow>
                (case getProp data ''invalidityReasons'' of
                   Inl e \<Rightarrow> ([AxiosGet url], Next)
                 | Inr invalidityReasons \<Rightarrow>
                     if truthy invalidityReasons
                     then ([AxiosGet url], Return (False,
                             [Str (name candidate), Str '' has a kusama node that is invalid: '',
                              Js invalidityReasons]))
                     else (case getProp data ''rank'' of
                             Inl e \<Rightarrow> ([AxiosGet url], Next)
                           | Inr rank' \<Rightarrow>
                               if jsLess (toNumber (builtins w) rank') 25
                               then ([AxiosGet url], Return (False,
                                       [Str (name candidate),
                                        Str '' has a Kusama stash with lower than 25 rank in the Kusama OTV programme: '',
                                        Js rank', Str ''.'']))
                               else ([AxiosGet url], Next))))
      else ([], Next))"

text \<open>Running the blocks in order: the first one that returns or throws ends the call,
  and line 296 returns \<open>[true, ""]\<close> when every block falls through.\<close>

fun runBlocks :: "(effect list \<times> step) list \<Rightarrow> effect list \<times> (exn + bool \<times> reason)" where
  "runBlocks [] = ([], Inr (True, []))"
| "runBlocks ((es, Next) # bs) = (es @ fst (runBlocks bs), snd (runBlocks bs))"
| "runBlocks ((es, Return v) # bs) = (es, Inr v)"
| "runBlocks ((es, Raise x) # bs) = (es, Inl x)"

definition blocks ::
  "otv \<Rightarrow> world \<Rightarrow> candidate \<Rightarrow> (string \<times> nat) list \<Rightarrow> (effect list \<times> step) list" where
  "blocks this w candidate identityHashTable =
     [onlineBlock candidate,
      intentionBlock w candidate,
      versionBlock this w candidate,
      connectionBlock this w candidate,
      identityBlock this w candidate identityHashTable,
      uptimeBlock candidate,
      destinationBlock this w candidate,
      commissionBlock this w candidate,
      selfStakeBlock this w candidate,
      unclaimedBlock this w candidate,
      kusamaBlock w candidate]"

definition checkSingleCandidate ::
  "otv \<Rightarrow> world \<Rightarrow> candidate \<Rightarrow> (string \<times> nat) list
     \<Rightarrow> effect list \<times> (exn + bool \<times> reason)" where
  "checkSingleCandidate this w candidate identityHashTable =
     runBlocks (blocks this w candidate identityHashTable)"

subsection \<open>getValidCandidates (lines 300-512)\<close>

text \<open>The weights of lines 523-531.\<close>

definition INCLUSION_WEIGHT :: real where "INCLUSION_WEIGHT = 5"

definition SPAN_INCLUSION_WEIGHT :: real where "SPAN_INCLUSION_WEIGHT = 40"

definition DISCOVERED_WEIGHT :: real where "DISCOVERED_WEIGHT = 5"

definition NOMINATED_WEIGHT :: real where "NOMINATED_WEIGHT = 35"

definition RANK_WEIGHT :: real where "RANK_WEIGHT = 5"

definition UNCLAIMED_WEIGHT :: real where "UNCLAIMED_WEIGHT = 15"

definition BONDED_WEIGHT :: real where "BONDED_WEIGHT = 13"

definition FAULTS_WEIGHT :: real where "FAULTS_WEIGHT = 5"

definition OFFLINE_WEIGHT :: real where "OFFLINE_WEIGHT = 2"

text \<open>Lines 309-321: the candidates for which \<open>checkSingleCandidate\<close> returns true, in
  input order; an exception of a check ends the whole call.\<close>

fun validLoop ::
  "otv \<Rightarrow> world \<Rightarrow> candidate list \<Rightarrow> (string \<times> nat) list
     \<Rightarrow> effect list \<times> (exn + candidate list)" where
  "validLoop this w [] identityHashTable = ([], Inr [])"
| "validLoop this w (candidate # rest) identityHashTable =
     (case checkSingleCandidate this w candidate identityHashTable of
        (es, Inl x) \<Rightarrow> (es, Inl x)
      | (es, Inr (isValid, reason)) \<Rightarrow>
          (case validLoop this w rest identityHashTable of
             (es', Inl x) \<Rightarrow> (es @ es', Inl x)
           | (es', Inr validCandidates) \<Rightarrow>
               (es @ es', Inr (if isValid then candidate # validCandidates
                               else validCandidates))))"

text \<open>\<open>x ? x : 0\<close> for a number.\<close>

definition orZero :: "real \<Rightarrow> real" where
  "orZero x = (if x \<noteq> 0 then x else 0)"

text \<open>Lines 327-380: the nine populations.\<close>

definition bondedValues :: "candidate list \<Rightarrow> real list" where
  "bondedValues validCandidates = map (\<lambda>candidate. orZero (bonded candidate)) validCandidates"

definition faultsValues :: "candidate list \<Rightarrow> real list" where
  "faultsValues validCandidates = map (\<lambda>candidate. orZero (faults candidate)) validCandidates"

definition inclusionValues :: "candidate list \<Rightarrow> real list" where
  "inclusionValues validCandidates =
     map (\<lambda>candidate. orZero (inclusion candidate)) validCandidates"

definition spanInclusionValues :: "candidate list \<Rightarrow> real list" where
  "spanInclusionValues validCandidates =
     map (\<lambda>candidate. orZero (spanInclusion candidate)) validCandidates"

definition discoveredAtValues :: "candidate list \<Rightarrow> real list" where
  "discoveredAtValues validCandidates =
     map (\<lambda>candidate. orZero (discoveredAt candidate)) validCandidates"

definition nominatedAtValues :: "candidate list \<Rightarrow> real list" where
  "nominatedAtValues validCandidates =
     map (\<lambda>candidate. orZero (nominatedAt candidate)) validCandidates"

definition offlineValues :: "candidate list \<Rightarrow> real list" where
  "offlineValues validCandidates =
     map (\<lambda>candidate. orZero (offlineAccumulated candidate)) validCandidates"

definition rankValues :: "candidate list \<Rightarrow> real list" where
  "rankValues validCandidates = map (\<lambda>candidate. orZero (rank candidate)) validCandidates"

definition unclaimedValues :: "candidate list \<Rightarrow> real list" where
  "unclaimedValues validCandidates =
     map (\<lambda>candidate. case unclaimedEras candidate of
                          None \<Rightarrow> 0
                        | Some eras \<Rightarrow> orZero (real (length eras)))
         validCandidates"

text \<open>Lines 383-403.\<close>

definition scoreMetadata :: "world \<Rightarrow> candidate list \<Rightarrow> effect" where
  "scoreMetadata w validCandidates =
     SetValidatorScoreMetadata
       [getStats w (bondedValues validCandidates),
        getStats w (faultsValues validCandidates),
        getStats w (inclusionValues validCandidates),
        getStats w (spanInclusionValues validCandidates),
        getStats w (discoveredAtValues validCandidates),
        getStats w (nominatedAtValues validCandidates),
        getStats w (offlineValues validCandidates),
        getStats w (rankValues validCandidates),
        getStats w (unclaimedValues validCandidates)]
       [BONDED_WEIGHT, FAULTS_WEIGHT, INCLUSION_WEIGHT, SPAN_INCLUSION_WEIGHT,
        DISCOVERED_WEIGHT, NOMINATED_WEIGHT, OFFLINE_WEIGHT, RANK_WEIGHT, UNCLAIMED_WEIGHT]
       (now w)"

text \<open>Lines 406-469: the score of one valid candidate, in double arithmetic; \<open>i\<close>
  counts the calls of \<open>Math.random\<close>, and the literal \<open>0.05\<close> is the double nearest
  to it. The sum of lines 442-451 associates to the left.\<close>

definition scoreOf :: "world \<Rightarrow> candidate list \<Rightarrow> nat \<Rightarrow> candidate \<Rightarrow> score" where
  "scoreOf w validCandidates i candidate =
     (let scaledInclusion = scaled w (inclusion candidate) (inclusionValues validCandidates);
          inclusionScore = fmul (fsub 1 scaledInclusion) INCLUSION_WEIGHT;
          scaledSpanInclusion =
            scaled w (spanInclusion candidate) (spanInclusionValues validCandidates);
          spanInclusionScore = fmul (fsub 1 scaledSpanInclusion) SPAN_INCLUSION_WEIGHT;
          scaledDiscovered =
            scaled w (discoveredAt candidate) (discoveredAtValues validCandidates);
          discoveredScore = fmul (fsub 1 scaledDiscovered) DISCOVERED_WEIGHT;
          scaledNominated = scaled w (nominatedAt candidate) (nominatedAtValues validCandidates);
          nominatedScore = fmul (fsub 1 scaledNominated) NOMINATED_WEIGHT;
          scaledRank = scaled w (rank candidate) (rankValues validCandidates);
          rankScore = fmul scaledRank RANK_WEIGHT;
          scaledUnclaimed =
            (case unclaimedEras candidate of
               None \<Rightarrow> 0
             | Some eras \<Rightarrow> scaled w (real (length eras)) (unclaimedValues validCandidates));
          unclaimedScore = fmul (fsub 1 scaledUnclaimed) UNCLAIMED_WEIGHT;
          scaledBonded = scaled w (bonded candidate) (bondedValues validCandidates);
          bondedScore = (if scaledBonded \<noteq> 0 then fmul scaledBonded BONDED_WEIGHT else 0);
          scaledOffline =
            scaled w (offlineAccumulated candidate) (offlineValues validCandidates);
          offlineScore = fmul (fsub 1 scaledOffline) OFFLINE_WEIGHT;
          scaledFaults = scaled w (faults candidate) (faultsValues validCandidates);
          faultsScore = fmul (fsub 1 scaledFaults) FAULTS_WEIGHT;
          aggregate' =
            fadd (fadd (fadd (fadd (fadd (fadd (fadd (fadd
              inclusionScore spanInclusionScore) faultsScore) discoveredScore)
              nominatedScore) rankScore) unclaimedScore) bondedScore) offlineScore;
          randomness' = fadd 1 (fmul (random w i) (fl 0.05))
      in \<lparr> total = fmul aggregate' randomness',
           aggregate = aggregate',
           sc_inclusion = inclusionScore,
           sc_spanInclusion = spanInclusionScore,
           discovered = discoveredScore,
           nominated = nominatedScore,
           sc_rank = rankScore,
           unclaimed = unclaimedScore,
           sc_bonded = bondedScore,
           sc_faults = faultsScore,
           offline = offlineScore,
           randomness = randomness',
           updated = now w \<rparr>)"

text \<open>Lines 488-500.\<close>

definition rankedOf :: "score \<Rightarrow> candidate \<Rightarrow> ranked" where
  "rankedOf sc candidate =
     \<lparr> r_aggregate = sc,
       r_discoveredAt = discoveredAt candidate,
       r_rank = rank candidate,
       r_unclaimedEras = unclaimedEras candidate,
       r_inclusion = inclusion candidate,
       r_spanInclusion = spanInclusion candidate,
       r_name = name candidate,
       r_stash = stash candidate,
       r_identity = identity candidate,
       r_nominatedAt = nominatedAt candidate,
       r_bonded = bonded candidate \<rparr>"

text \<open>The loop of lines 405-502.\<close>

fun scoreLoop ::
  "world \<Rightarrow> candidate list \<Rightarrow> nat \<Rightarrow> candidate list \<Rightarrow> effect list \<times> ranked list" where
  "scoreLoop w validCandidates i [] = ([], [])"
| "scoreLoop w validCandidates i (candidate # rest) =
     (let sc = scoreOf w validCandidates i candidate;
          rankedCandidate = rankedOf sc candidate;
          (es, rankedCandidates) = scoreLoop w validCandidates (Suc i) rest
      in (SetValidatorScore (stash candidate) sc # es, rankedCandidate # rankedCandidates))"

text \<open>Lines 504-511. The comparator \<open>b.aggregate.total - a.aggregate.total\<close> orders by
  descending total, and \<open>Array.prototype.sort\<close> is stable: a stable sort on the negated
  total.\<close>

definition getValidCandidates ::
  "otv \<Rightarrow> world \<Rightarrow> candidate list \<Rightarrow> (string \<times> nat) list
     \<Rightarrow> effect list \<times> (exn + otv \<times> ranked list)" where
  "getValidCandidates this w candidates identityHashTable =
     (case validLoop this w candidates identityHashTable of
        (es, Inl x) \<Rightarrow> (es, Inl x)
      | (es, Inr validCandidates) \<Rightarrow>
          (let (es', rankedCandidates) = scoreLoop w validCandidates 0 validCandidates;
               rankedCandidates' =
                 sort_key (\<lambda>r. - total (r_aggregate r)) rankedCandidates
           in (es @ [scoreMetadata w validCandidates] @ es',
               Inr (this \<lparr> validCache := rankedCandidates' \<rparr>, rankedCandidates'))))"

subsection \<open>processCandidates (lines 538-644)\<close>

text \<open>The body of the loop for one candidate that is not \<open>null\<close>: a block gives
  \<open>Some reason\<close> where the source adds the candidate to \<open>bad\<close> and continues with the
  next one, \<open>None\<close> where it falls through.\<close>

text \<open>Lines 569-583.\<close>

definition pcCommissionBlock :: "otv \<Rightarrow> world \<Rightarrow> candidate \<Rightarrow> effect list \<times> reason option" where
  "pcCommissionBlock this w candidate =
     (let (commission', err) = getCommission w (stash candidate) in
      if truthyStr err
      then ([GetCommission (stash candidate)],
            Some [Str (name candidate), Str '' '', Str (the err)])
      else if commission' > commission this
      then ([GetCommission (stash candidate)],
            Some [Str (name candidate), Str '' found commission higher than ten percent: '',
                  NumP commission'])
      else ([GetCommission (stash candidate)], None))"

text \<open>Lines 585-599.\<close>

definition pcSelfStakeBlock :: "otv \<Rightarrow> world \<Rightarrow> candidate \<Rightarrow> effect list \<times> reason option" where
  "pcSelfStakeBlock this w candidate =
     (if \<not> skipSelfStake candidate
      then (let (bondedAmt, err2) = getBondedAmount w (stash candidate) in
            if truthyStr err2
            then ([GetBondedAmount (stash candidate)],
                  Some [Str (name candidate), Str '' '', Str (the err2)])
            else if bondedAmt < minSelfStake this
            then ([GetBondedAmount (stash candidate)],
                  Some [Str (name candidate),
                        Str '' has less than the minimum required amount bonded: '',
                        NumP bondedAmt])
            else ([GetBondedAmount (stash candidate)], None))
      else ([], None))"

text \<open>Lines 601-608.\<close>

definition pcDestinationBlock :: "otv \<Rightarrow> world \<Rightarrow> candidate \<Rightarrow> effect list \<times> reason option" where
  "pcDestinationBlock this w candidate =
     (if \<not> skipStakedDesitnation this
      then (let isStaked = destinationIsStaked w (stash candidate) in
            if \<not> isStaked
            then ([DestinationIsStaked (stash candidate)],
                  Some [Str (name candidate),
                        Str '' does not have reward destination set to Staked''])
            else ([DestinationIsStaked (stash candidate)], None))
      else ([], None))"

text \<open>Lines 611-619.\<close>

definition pcUptimeBlock :: "candidate \<Rightarrow> effect list \<times> reason option" where
  "pcUptimeBlock candidate =
     (let totalOffline = fdiv (offlineAccumulated candidate) WEEK in
      if totalOffline > fl 0.02
      then ([], Some [Str (name candidate), Str '' has been offline '',
                      NumP (fdiv (fdiv (offlineAccumulated candidate) 1000) 60),
                      Str '' minutes this week.''])
      else ([], None))"

text \<open>The first block that gives a reason ends the iteration.\<close>

fun firstBad :: "(effect list \<times> reason option) list \<Rightarrow> effect list \<times> reason option" where
  "firstBad [] = ([], None)"
| "firstBad ((es, None) # bs) = (es @ fst (firstBad bs), snd (firstBad bs))"
| "firstBad ((es, Some r) # bs) = (es, Some r)"

definition processOne :: "otv \<Rightarrow> world \<Rightarrow> candidate \<Rightarrow> effect list \<times> reason option" where
  "processOne this w candidate =
     firstBad [pcCommissionBlock this w candidate,
               pcSelfStakeBlock this w candidate,
               pcDestinationBlock this w candidate,
               pcUptimeBlock candidate]"

text \<open>The loop of lines 553-642 over the cohort in iteration order; \<open>None\<close> is a
  \<open>null\<close> entry, which is skipped. The sets \<open>good\<close> and \<open>bad\<close> are lists in
  insertion order.\<close>

fun processLoop ::
  "otv \<Rightarrow> world \<Rightarrow> candidate option list
     \<Rightarrow> effect list \<times> candidate list \<times> (candidate \<times> reason) list" where
  "processLoop this w [] = ([], [], [])"
| "processLoop this w (None # rest) = processLoop this w rest"
| "processLoop this w (Some candidate # rest) =
     (let (es, verdict) = processOne this w candidate;
          (es', good, bad) = processLoop this w rest
      in case verdict of
           None \<Rightarrow> (es @ es', candidate # good, bad)
         | Some reason \<Rightarrow> (es @ es', good, (candidate, reason) # bad))"

text \<open>Lines 545-548 and 643: \<open>if (eraErr) throw eraErr\<close>, then the loop.\<close>

definition processCandidates ::
  "otv \<Rightarrow> world \<Rightarrow> candidate option list
     \<Rightarrow> effect list \<times> (exn + candidate list \<times> (candidate \<times> reason) list)" where
  "processCandidates this w candidates =
     (let (activeEraIndex, eraErr) = getActiveEraIndex w in
      if truthyStr eraErr
      then ([GetActiveEraIndex], Inl (Thrown (the eraErr)))
      else (let (es, good, bad) = processLoop this w candidates
            in (GetActiveEraIndex # es, Inr (good, bad))))"

section \<open>The notions of the specification\<close>

text \<open>The first \<open>n\<close> blocks fall through (the first \<open>n\<close> checks pass), so the call
  reaches block \<open>n + 1\<close>.\<close>

definition reaches :: "nat \<Rightarrow> otv \<Rightarrow> world \<Rightarrow> candidate \<Rightarrow> (string \<times> nat) list \<Rightarrow> bool" where
  "reaches n this w candidate identityHashTable =
     list_all (\<lambda>b. snd b = Next) (take n (blocks this w candidate identityHashTable))"

text \<open>The threshold as line 260 computes it, with \<open>currentEra\<close> the value slot of the
  era read: two subtractions, each rounded.\<close>

definition eraThreshold :: "otv \<Rightarrow> world \<Rightarrow> real" where
  "eraThreshold this w =
     fsub (fsub (fst (getActiveEraIndex w)) (unclaimedEraThreshold this)) 1"

text \<open>The threshold as section 4.3 of the spec writes it:
  \<open>currentEra - unclaimedEraThreshold - 1\<close> over the numbers, with no rounding.\<close>

definition specThreshold :: "otv \<Rightarrow> world \<Rightarrow> real" where
  "specThreshold this w = fst (getActiveEraIndex w) - unclaimedEraThreshold this - 1"

text \<open>The URL of line 274.\<close>

definition lookupUrl :: "world \<Rightarrow> candidate \<Rightarrow> string" where
  "lookupUrl w candidate = KOTVBackendEndpoint w @ ''/candidate/'' @ the (kusamaStash candidate)"

text \<open>A rank that is a JSON number; \<open>null\<close>, a boolean, a string, an array or an
  object is not, and neither is a missing one.\<close>

fun numericJson :: "json option \<Rightarrow> bool" where
  "numericJson (Some (JNum x)) = True"
| "numericJson v = False"

text \<open>The doubles nearest to 0.05 and to 1.05; the second is larger than 1.05.\<close>

definition double005 :: real where
  "double005 = 3602879701896397 / 72057594037927936"

definition double105 :: real where
  "double105 = 4728779608739021 / 4503599627370496"

text \<open>The score object that a call of the storage persists.\<close>

fun persistedScore :: "effect \<Rightarrow> score option" where
  "persistedScore (SetValidatorScore s sc) = Some sc"
| "persistedScore e = None"

text \<open>The sum of the nine sub-scores of a score object as line 442-451 adds them: from
  the left, every addition rounded.\<close>

definition sumOfSubScores :: "score \<Rightarrow> real" where
  "sumOfSubScores sc =
     fadd (fadd (fadd (fadd (fadd (fadd (fadd (fadd
       (sc_inclusion sc) (sc_spanInclusion sc)) (sc_faults sc)) (discovered sc))
       (nominated sc)) (sc_rank sc)) (unclaimed sc)) (sc_bonded sc)) (offline sc)"

text \<open>What claim C4 says of a score object, with the sum and the product in double
  arithmetic and the interval closed at the double that \<open>1.05\<close> denotes.\<close>

definition scoreRecordOk :: "score \<Rightarrow> bool" where
  "scoreRecordOk sc =
     (aggregate sc = sumOfSubScores sc
      \<and> 1 \<le> randomness sc \<and> randomness sc \<le> fl 1.05
      \<and> total sc = fmul (aggregate sc) (randomness sc))"

section \<open>Example data\<close>

text \<open>A configuration with no check skipped, and a world in which a candidate with stash A
  or B passes every read; its advisory lookup throws, its version parser cannot read
  "unknown", and its hash function is the identity.\<close>

definition exOtv :: otv where
  "exOtv = \<lparr> skipConnectionTime = False, skipIdentity = False, skipStakedDesitnation = False,
     skipClientUpgrade = False, skipUnclaimed = False, minSelfStake = 50, commission = 10,
     unclaimedEraThreshold = 4, validCache = [], invalidCache = [] \<rparr>"

definition exWorld :: world where
  "exWorld = \<lparr> getValidators = [''A'', ''B''], formatAddress = (\<lambda>s. s),
     getLatestRelease = Some ''v0.9.0'',
     semver_coerce = (\<lambda>s. if s = ''unknown'' then None else Some s),
     semver_clean = (\<lambda>s. Some (tl s)),
     semver_gte = (\<lambda>a b. a = b),
     now = 1209600000,
     hasIdentity = (\<lambda>s. (True, True)), getIdentity = (\<lambda>s. s), blake2AsHex = (\<lambda>s. s),
     destinationIsStaked = (\<lambda>s. True),
     getCommission = (\<lambda>s. (5, None)), getBondedAmount = (\<lambda>s. (100, None)),
     getActiveEraIndex = (100, None),
     KOTVBackendEndpoint = ''https://kusama.example'',
     axios_get = (\<lambda>u. None),
     builtins = \<lparr> stringToNumber = (\<lambda>s. NaN), numberToString = (\<lambda>x. ''#'') \<rparr>,
     random = (\<lambda>i. 0), scaled = (\<lambda>v xs. 0),
     getStats = (\<lambda>xs. \<lparr> st_absMin = 0, st_absMax = 0, st_mean = 0, st_median = 0,
        st_q10 = 0, st_q25 = 0, st_q75 = 0, st_q90 = 0, st_std = 0 \<rparr>) \<rparr>"

text \<open>A candidate that passes all eleven checks in the example world, its table, and a
  second candidate.\<close>

definition exCandidate :: candidate where
  "exCandidate = \<lparr> name = ''alice'', stash = ''A'', kusamaStash = Some ''K'',
     version = ''0.9.0'', discoveredAt = 0, onlineSince = 1, offlineSince = 0,
     offlineAccumulated = 0, skipSelfStake = False, unclaimedEras = Some [99],
     bonded = 100, faults = 0, inclusion = 0, spanInclusion = 0, rank = 3,
     nominatedAt = 0, identity = ''alice-id'' \<rparr>"

definition exTable :: "(string \<times> nat) list" where
  "exTable = [(''A'', 1)]"

definition exCandidateBob :: candidate where
  "exCandidateBob = exCandidate \<lparr> name := ''bob'', stash := ''B'', bonded := 200 \<rparr>"

definition exTable2 :: "(string \<times> nat) list" where
  "exTable2 = [(''A'', 1), (''B'', 1)]"

text \<open>Variants of the candidate: with the unclaimed era 90, the same without a kusama
  stash, and with a version string that holds no version.\<close>

definition exCandidate90 :: candidate where
  "exCandidate90 = exCandidate \<lparr> unclaimedEras := Some [90] \<rparr>"

definition exCandidate90Only :: candidate where
  "exCandidate90Only = exCandidate \<lparr> unclaimedEras := Some [90], kusamaStash := None \<rparr>"

definition exCandidateUnknown :: candidate where
  "exCandidateUnknown = exCandidate \<lparr> version := ''unknown'' \<rparr>"

text \<open>A candidate whose one unclaimed era is 2^54 - 4, for a world whose current era is
  2^54.\<close>

definition exCandidateHugeEra :: candidate where
  "exCandidateHugeEra = exCandidate \<lparr> unclaimedEras := Some [18014398509481980] \<rparr>"

definition exWorldHugeEra :: world where
  "exWorldHugeEra = exWorld \<lparr> getActiveEraIndex := (18014398509481984, None) \<rparr>"

text \<open>The configuration with the client-version check skipped.\<close>

definition exOtvSkipUpgrade :: otv where
  "exOtvSkipUpgrade = exOtv \<lparr> skipClientUpgrade := True \<rparr>"

text \<open>Variants of the world: a commission above the ceiling; an era read that fails with a
  \<open>null\<close> value, with a message and with the empty string as its error; a lookup that
  answers \<open>{"rank": null}\<close> and one that answers \<open>{"invalidityReasons": ""}\<close>; and a
  \<open>scaled\<close> that is 1 for the value 200 and 0 otherwise.\<close>

definition exWorldHighCommission :: world where
  "exWorldHighCommission = exWorld \<lparr> getCommission := (\<lambda>s. (15, None)) \<rparr>"

definition exWorldEraError :: world where
  "exWorldEraError = exWorld \<lparr> getActiveEraIndex := (0, Some ''Active era not found'') \<rparr>"

definition exWorldEmptyEraError :: world where
  "exWorldEmptyEraError = exWorld \<lparr> getActiveEraIndex := (0, Some []) \<rparr>"

definition exWorldNullRank :: world where
  "exWorldNullRank = exWorld \<lparr> axios_get := (\<lambda>u. Some (JObj [(''rank'', JNull)])) \<rparr>"

definition exWorldNoRank :: world where
  "exWorldNoRank = exWorld \<lparr> axios_get := (\<lambda>u. Some (JObj [(''invalidityReasons'', JStr [])])) \<rparr>"

definition exWorldScaled :: world where
  "exWorldScaled = exWorld \<lparr> scaled := (\<lambda>v xs. if v = 200 then 1 else 0) \<rparr>"

text \<open>Modelled from the spec: the function \<open>scaled\<close> of \<open>./score\<close>, which is not among
  the source files. Section 4.1 of the spec gives it as
  \<open>(value - min(population)) / (max(population) - min(population))\<close>, and 0 when the
  population is empty or its maximum equals its minimum; the two differences and the
  quotient are rounded as doubles.\<close>

definition minMax :: "real \<Rightarrow> real list \<Rightarrow> real" where
  "minMax v xs =
     (if xs = [] then 0
      else (let lo = fold min xs (hd xs); hi = fold max xs (hd xs)
            in if hi = lo then 0 else fl (fsub v lo / fsub hi lo)))"

text \<open>Three candidates that differ in their stash and in their rank (0, 3 and 9), their
  table, and a world in which all three are validators, \<open>scaled\<close> is the function above
  and \<open>Math.random\<close> returns 0.9999999999999998, the double next below 1.\<close>

definition exCandidateLow :: candidate where
  "exCandidateLow = exCandidate \<lparr> name := ''bob'', stash := ''B'', rank := 0 \<rparr>"

definition exCandidateHigh :: candidate where
  "exCandidateHigh = exCandidate \<lparr> name := ''carol'', stash := ''C'', rank := 9 \<rparr>"

definition exCandidates3 :: "candidate list" where
  "exCandidates3 = [exCandidateLow, exCandidate, exCandidateHigh]"

definition exTable3 :: "(string \<times> nat) list" where
  "exTable3 = [(''A'', 1), (''B'', 1), (''C'', 1)]"

definition exWorldDoubles :: world where
  "exWorldDoubles = exWorld \<lparr> getValidators := [''A'', ''B'', ''C''],
     random := (\<lambda>i. 1 - 1 / 2 ^ 52), scaled := minMax \<rparr>"

section \<open>Properties\<close>

lemmas block_defs = onlineBlock_def intentionBlock_def versionBlock_def connectionBlock_def
  identityBlock_def uptimeBlock_def destinationBlock_def commissionBlock_def selfStakeBlock_def
  unclaimedBlock_def kusamaBlock_def

lemmas ex_defs = exOtv_def exWorld_def exCandidate_def exTable_def

lemmas weight_defs = INCLUSION_WEIGHT_def SPAN_INCLUSION_WEIGHT_def DISCOVERED_WEIGHT_def
  NOMINATED_WEIGHT_def RANK_WEIGHT_def UNCLAIMED_WEIGHT_def BONDED_WEIGHT_def FAULTS_WEIGHT_def
  OFFLINE_WEIGHT_def

subsection \<open>Double arithmetic\<close>

lemma rne_of_int [simp]: "rne (of_int n) = n"
  by (simp add: rne_def)

lemma rne_bounds: "\<lfloor>x\<rfloor> \<le> rne x \<and> rne x \<le> \<lfloor>x\<rfloor> + 1"
  by (simp add: rne_def Let_def)

lemma rne_mono: "x \<le> y \<Longrightarrow> rne x \<le> rne y"
proof -
  assume xy: "x \<le> y"
  then have fl: "\<lfloor>x\<rfloor> \<le> \<lfloor>y\<rfloor>" by (rule floor_mono)
  show ?thesis
  proof (cases "\<lfloor>x\<rfloor> = \<lfloor>y\<rfloor>")
    case True
    then have "x - of_int \<lfloor>x\<rfloor> \<le> y - of_int \<lfloor>y\<rfloor>" using xy by simp
    then show ?thesis using True by (auto simp: rne_def Let_def)
  next
    case False
    with fl have "\<lfloor>x\<rfloor> + 1 \<le> \<lfloor>y\<rfloor>" by simp
    then show ?thesis using rne_bounds [of x] rne_bounds [of y] by linarith
  qed
qed


lemma binade:
  assumes "x > 0"
  shows "2 powr of_int \<lfloor>log 2 x\<rfloor> \<le> x \<and> x < 2 powr of_int (\<lfloor>log 2 x\<rfloor> + 1)"
  using floor_log_eq_powr_iff [of x 2 "\<lfloor>log 2 x\<rfloor>"] assms by simp

lemma binade_unique:
  assumes "2 powr of_int e \<le> x" and "x < 2 powr of_int (e + 1)"
  shows "\<lfloor>log 2 x\<rfloor> = e"
proof -
  have "0 < (2::real) powr of_int e" by simp
  with assms(1) have "x > 0" by linarith
  then show ?thesis
    using floor_log_eq_powr_iff [of x 2 e] assms by simp
qed

lemma scale_split:
  "(2::real) powr of_int (e - 52) * 2 ^ 52 = 2 powr of_int e"
  "(2::real) powr of_int (e - 52) * 2 ^ 53 = 2 powr of_int (e + 1)"
proof -
  have "(2::real) powr (of_int (e - 52) + 52) = 2 powr of_int (e - 52) * 2 powr (52::real)"
    by (rule powr_add)
  then show "(2::real) powr of_int (e - 52) * 2 ^ 52 = 2 powr of_int e"
    by simp
  have "(2::real) powr (of_int (e - 52) + 53) = 2 powr of_int (e - 52) * 2 powr (53::real)"
    by (rule powr_add)
  moreover have "of_int (e - 52) + (53::real) = of_int (e + 1)"
    by simp
  ultimately show "(2::real) powr of_int (e - 52) * 2 ^ 53 = 2 powr of_int (e + 1)"
    by (simp add: add.commute)
qed

lemma mantissa_bounds:
  assumes "x > 0"
  shows "2 ^ 52 \<le> x / 2 powr of_int (\<lfloor>log 2 x\<rfloor> - 52)
         \<and> x / 2 powr of_int (\<lfloor>log 2 x\<rfloor> - 52) < 2 ^ 53"
proof -
  define e where "e = \<lfloor>log 2 x\<rfloor>"
  define q :: real where "q = 2 powr of_int (e - 52)"
  have q: "q > 0" by (simp add: q_def)
  have b: "2 powr of_int e \<le> x" "x < 2 powr of_int (e + 1)"
    using binade [OF assms] by (simp_all add: e_def)
  have "q * 2 ^ 52 \<le> x" "x < q * 2 ^ 53"
    using b scale_split [of e] by (simp_all add: q_def)
  then have "2 ^ 52 \<le> x / q \<and> x / q < 2 ^ 53"
    using q by (simp add: pos_le_divide_eq pos_divide_less_eq mult.commute)
  then show ?thesis by (simp add: q_def e_def)
qed

lemma fl_pos:
  assumes "x > 0"
  shows "fl x = of_int (rne (x / 2 powr of_int (\<lfloor>log 2 x\<rfloor> - 52)))
                  * 2 powr of_int (\<lfloor>log 2 x\<rfloor> - 52)"
  using assms by (simp add: fl_def Let_def)

lemma fl_bounds:
  assumes "x > 0"
  shows "2 powr of_int \<lfloor>log 2 x\<rfloor> \<le> fl x \<and> fl x \<le> 2 powr of_int (\<lfloor>log 2 x\<rfloor> + 1)"
proof -
  define e where "e = \<lfloor>log 2 x\<rfloor>"
  define q :: real where "q = 2 powr of_int (e - 52)"
  define m where "m = x / q"
  have q: "q > 0" by (simp add: q_def)
  have m: "2 ^ 52 \<le> m" "m < 2 ^ 53"
    using mantissa_bounds [OF assms] by (simp_all add: m_def q_def e_def)
  have "rne (of_int (2 ^ 52)) \<le> rne m" "rne m \<le> rne (of_int (2 ^ 53))"
    using m by (auto intro!: rne_mono)
  then have r: "2 ^ 52 \<le> rne m" "rne m \<le> 2 ^ 53"
    by (simp_all only: rne_of_int)
  have f: "fl x = of_int (rne m) * q"
    using fl_pos [OF assms] by (simp add: m_def q_def e_def)
  have "(of_int (2 ^ 52) :: real) \<le> of_int (rne m)" "(of_int (rne m) :: real) \<le> of_int (2 ^ 53)"
    using r by (simp_all only: of_int_le_iff)
  then have "q * 2 ^ 52 \<le> q * of_int (rne m)" "q * of_int (rne m) \<le> q * 2 ^ 53"
    using q by simp_all
  moreover have "q * 2 ^ 52 = 2 powr of_int e" "q * 2 ^ 53 = 2 powr of_int (e + 1)"
    using scale_split [of e] by (simp_all add: q_def)
  ultimately have "2 powr of_int e \<le> fl x" "fl x \<le> 2 powr of_int (e + 1)"
    by (simp_all add: f mult.commute)
  then show ?thesis by (simp add: e_def)
qed

lemma fl_mono_pos:
  assumes "0 < x" and "x \<le> y"
  shows "fl x \<le> fl y"
proof -
  have y: "0 < y" using assms by linarith
  define e where "e = \<lfloor>log 2 x\<rfloor>"
  define e' where "e' = \<lfloor>log 2 y\<rfloor>"
  have "log 2 x \<le> log 2 y" using assms by simp
  then have ee: "e \<le> e'" unfolding e_def e'_def by (rule floor_mono)
  show ?thesis
  proof (cases "e = e'")
    case True
    define q :: real where "q = 2 powr of_int (e - 52)"
    have q: "q > 0" by (simp add: q_def)
    have "x / q \<le> y / q" using assms(2) q by (simp add: divide_right_mono)
    then have "rne (x / q) \<le> rne (y / q)" by (rule rne_mono)
    then have "of_int (rne (x / q)) * q \<le> of_int (rne (y / q)) * q"
      using q by simp
    then show ?thesis
      using fl_pos [OF assms(1)] fl_pos [OF y] True by (simp add: q_def e_def e'_def)
  next
    case False
    with ee have "e + 1 \<le> e'" by simp
    then have "(2::real) powr of_int (e + 1) \<le> 2 powr of_int e'"
      by (simp only: powr_le_cancel_iff)
    moreover have "fl x \<le> 2 powr of_int (e + 1)"
      using fl_bounds [OF assms(1)] by (simp add: e_def)
    moreover have "2 powr of_int e' \<le> fl y"
      using fl_bounds [OF y] by (simp add: e'_def)
    ultimately show ?thesis by linarith
  qed
qed

lemma fl_zero [simp]: "fl 0 = 0"
  by (simp add: fl_def)

lemma fl_nonneg: "0 \<le> x \<Longrightarrow> 0 \<le> fl x"
proof (cases "x = 0")
  case True
  then show ?thesis by simp
next
  case False
  assume "0 \<le> x"
  with False have "0 < x" by simp
  from fl_bounds [OF this] have "2 powr of_int \<lfloor>log 2 x\<rfloor> \<le> fl x" by simp
  moreover have "0 < (2::real) powr of_int \<lfloor>log 2 x\<rfloor>" by simp
  ultimately show ?thesis by linarith
qed

lemma fl_mono: "0 \<le> x \<Longrightarrow> x \<le> y \<Longrightarrow> fl x \<le> fl y"
proof (cases "x = 0")
  case True
  assume "0 \<le> x" "x \<le> y"
  then show ?thesis using True fl_nonneg [of y] by simp
next
  case False
  assume "0 \<le> x" "x \<le> y"
  with False show ?thesis by (intro fl_mono_pos) simp_all
qed

text \<open>Evaluation at a number whose binade is known, and at a whole number.\<close>

lemma fl_eval:
  assumes "2 powr of_int e \<le> x" and "x < 2 powr of_int (e + 1)"
  shows "fl x = of_int (rne (x / 2 powr of_int (e - 52))) * 2 powr of_int (e - 52)"
proof -
  have "0 < (2::real) powr of_int e" by simp
  with assms(1) have x: "x > 0" by linarith
  show ?thesis
    using fl_pos [OF x] binade_unique [OF assms] by simp
qed

lemma fl_eval_small:
  assumes "1 \<le> x * 2 ^ k" and "x * 2 ^ k < 2"
  shows "fl x = of_int (rne (x * 2 ^ (k + 52))) / 2 ^ (k + 52)"
proof -
  have p: "(2::real) powr of_int (- int k) = 1 / 2 ^ k"
    by (simp add: powr_minus powr_realpow divide_inverse)
  have p1: "(2::real) powr of_int (- int k + 1) = 2 / 2 ^ k"
    using powr_add [of "2::real" "of_int (- int k)" 1] p by simp
  have "(2::real) powr of_int (- int (k + 52)) = 1 / 2 ^ (k + 52)"
    by (simp only: of_int_minus of_int_of_nat_eq powr_minus powr_realpow divide_inverse)
  then have p2: "(2::real) powr of_int (- int k - 52) = 1 / 2 ^ (k + 52)"
    by simp
  have a: "2 powr of_int (- int k) \<le> x"
    unfolding p using assms(1) by (simp add: pos_divide_le_eq)
  have b: "x < 2 powr of_int (- int k + 1)"
    unfolding p1 using assms(2) by (simp add: pos_less_divide_eq)
  have "fl x = of_int (rne (x / 2 powr of_int (- int k - 52))) * 2 powr of_int (- int k - 52)"
    by (rule fl_eval [OF a b])
  then show ?thesis
    unfolding p2 by simp
qed

lemma fl_eval_unit:
  assumes "1 \<le> x" and "x < 2"
  shows "fl x = of_int (rne (x * 2 ^ 52)) / 2 ^ 52"
  using fl_eval_small [of x 0] assms by simp

lemma fl_eval_large:
  assumes "2 ^ k \<le> x" and "x < 2 * 2 ^ k" and "k \<le> 52"
  shows "fl x = of_int (rne (x * 2 ^ (52 - k))) / 2 ^ (52 - k)"
proof -
  have p: "(2::real) powr of_int (int k) = 2 ^ k"
    by (simp add: powr_realpow)
  have p1: "(2::real) powr of_int (int k + 1) = 2 * 2 ^ k"
    using powr_add [of "2::real" "of_int (int k)" 1] p by simp
  have "real_of_int (int k - 52) = - real (52 - k)"
    using assms(3) by (simp add: of_nat_diff)
  then have "(2::real) powr of_int (int k - 52) = 2 powr (- real (52 - k))"
    by (simp only:)
  also have "\<dots> = 1 / 2 ^ (52 - k)"
    by (simp add: powr_minus powr_realpow divide_inverse)
  finally have p2: "(2::real) powr of_int (int k - 52) = 1 / 2 ^ (52 - k)" .
  have a: "2 powr of_int (int k) \<le> x"
    unfolding p by (rule assms(1))
  have b: "x < 2 powr of_int (int k + 1)"
    unfolding p1 by (rule assms(2))
  have "fl x = of_int (rne (x / 2 powr of_int (int k - 52))) * 2 powr of_int (int k - 52)"
    by (rule fl_eval [OF a b])
  then show ?thesis
    unfolding p2 by simp
qed

lemma fl_nat:
  assumes "n < 2 ^ 53"
  shows "fl (real n) = real n"
proof (cases "n = 0")
  case True
  then show ?thesis by simp
next
  case False
  then have x: "real n > 0" "1 \<le> real n" by simp_all
  define e where "e = \<lfloor>log 2 (real n)\<rfloor>"
  have b: "2 powr of_int e \<le> real n" "real n < 2 powr of_int (e + 1)"
    using binade [OF x(1)] by (simp_all add: e_def)
  have "(2::real) powr 0 < 2 powr of_int (e + 1)"
    using b(2) x(2) by simp
  then have "(0::real) < of_int (e + 1)"
    by (simp only: powr_less_cancel_iff) 
  then have e0: "0 \<le> e" by linarith
  have "real n < 2 ^ 53" using assms by (simp add: of_nat_less_iff [symmetric] del: of_nat_less_iff)
  then have "(2::real) powr of_int e < 2 powr (53::real)"
    using b(1) by simp
  then have "of_int e < (53::real)"
    by (simp only: powr_less_cancel_iff)
  then have e52: "e \<le> 52" by linarith
  define k where "k = nat (52 - e)"
  have ek: "e - 52 = - int k" using e52 by (simp add: k_def)
  have q: "(2::real) powr of_int (e - 52) = 1 / 2 ^ k"
    unfolding ek by (simp only: of_int_minus of_int_of_nat_eq powr_minus powr_realpow divide_inverse)
  have m: "real n / (1 / 2 ^ k) = of_int (int n * 2 ^ k)"
    by simp
  have "fl (real n) = of_int (rne (real n / (1 / 2 ^ k))) * (1 / 2 ^ k)"
    using fl_pos [OF x(1)] q by (simp add: e_def)
  also have "\<dots> = of_int (int n * 2 ^ k) * (1 / 2 ^ k)"
    unfolding m rne_of_int ..
  also have "\<dots> = real n"
    by simp
  finally show ?thesis .
qed

lemma fl_numeral [simp]:
  "numeral v < (9007199254740992::nat) \<Longrightarrow> fl (numeral v) = numeral v"
  using fl_nat [of "numeral v"] by simp

lemma fl_1 [simp]: "fl 1 = 1"
  using fl_nat [of 1] by simp

lemma fl_minus [simp]: "fl (- x) = - fl x"
  by (simp add: fl_def Let_def)

text \<open>Between 2^53 and 2^54 the doubles are the even whole numbers.\<close>

lemma fl_eval_53:
  assumes "2 ^ 53 \<le> x" and "x < 2 ^ 54"
  shows "fl x = of_int (rne (x / 2)) * 2"
  using fl_eval [of 53 x] assms by simp

text \<open>Whole numbers up to 2^53 in magnitude are doubles.\<close>

lemma fl_int:
  assumes "\<bar>i\<bar> \<le> 2 ^ 53"
  shows "fl (of_int i) = of_int i"
proof -
  have n: "fl (real k) = real k" if "k \<le> 2 ^ 53" for k :: nat
  proof (cases "k < 2 ^ 53")
    case True
    then show ?thesis by (rule fl_nat)
  next
    case False
    with that have "k = 2 ^ 53" by simp
    then show ?thesis
      using fl_eval_53 [of "2 ^ 53"] by (simp add: rne_def)
  qed
  show ?thesis
  proof (cases "0 \<le> i")
    case True
    then have "nat i \<le> 2 ^ 53" using assms by (simp add: nat_le_iff)
    from n [OF this] True show ?thesis by simp
  next
    case False
    then have "nat (- i) \<le> 2 ^ 53" using assms by (simp add: nat_le_iff)
    from n [OF this] False have "fl (of_int (- i)) = of_int (- i)" by simp
    then show ?thesis by simp
  qed
qed

text \<open>On whole numbers below 2^53 the two subtractions of line 260 are exact.\<close>

lemma threshold_exact:
  assumes "n < 2 ^ 53" and "m < 2 ^ 53"
  shows "fsub (fsub (real n) (real m)) 1 = real n - real m - 1"
proof -
  have a: "\<bar>int n - int m\<bar> \<le> 2 ^ 53" "\<bar>int n - int m - 1\<bar> \<le> 2 ^ 53"
    using assms by (simp_all add: abs_le_iff)
  have "fl (real n - real m) = real n - real m"
    using fl_int [OF a(1)] by simp
  moreover have "fl (real n - real m - 1) = real n - real m - 1"
    using fl_int [OF a(2)] by simp
  ultimately show ?thesis
    by (simp add: fsub_def)
qed

text \<open>The literals of line 453, and the largest value of the jitter.\<close>

lemma fl_005: "fl (1 / 20) = double005"
  using fl_eval_small [of "1 / 20" 5] by (simp add: rne_def double005_def)

lemma fl_double005: "fl double005 = double005"
  using fl_eval_small [of double005 5] by (simp add: rne_def double005_def)

lemma fl_one_plus_double005: "fl (1 + double005) = double105"
  using fl_eval_unit [of "1 + double005"] by (simp add: rne_def double005_def double105_def)

lemma fl_105: "fl (21 / 20) = double105"
  using fl_eval_unit [of "21 / 20"] by (simp add: rne_def double105_def)

lemma jitter_bounds:
  assumes "0 \<le> r" and "r < 1"
  shows "1 \<le> fadd 1 (fmul r (fl 0.05)) \<and> fadd 1 (fmul r (fl 0.05)) \<le> fl 1.05"
proof -
  have d: "0 < double005" by (simp add: double005_def)
  have "0 \<le> r * double005" "r * double005 \<le> double005"
    using assms d by (simp_all add: mult_left_le_one_le)
  then have y: "0 \<le> fl (r * double005)" "fl (r * double005) \<le> double005"
    using fl_nonneg [of "r * double005"] fl_mono [of "r * double005" double005]
    by (simp_all add: fl_double005)
  then have "1 \<le> fl (1 + fl (r * double005))"
    "fl (1 + fl (r * double005)) \<le> fl (1 + double005)"
    using fl_mono [of 1 "1 + fl (r * double005)"]
      fl_mono [of "1 + fl (r * double005)" "1 + double005"]
    by simp_all
  then show ?thesis
    by (simp add: fadd_def fmul_def fl_005 fl_105 fl_one_plus_double005)
qed

text \<open>The literal of line 214 (and 612), and the comparison there: on a whole number of
  milliseconds it has the outcome of the comparison over the reals.\<close>

lemma fl_002: "fl (1 / 50) = 5764607523034235 / 288230376151711744"
  using fl_eval_small [of "1 / 50" 6] by (simp add: rne_def)

lemma uptime_comparison_exact:
  "(fl (real n / WEEK) > fl 0.02) = (real n / WEEK > 0.02)"
proof (cases "n \<le> 12096000")
  case True
  then have "real n \<le> 12096000" by simp
  then have le: "real n / WEEK \<le> 1 / 50" by (simp add: WEEK_def)
  have "0 \<le> real n / WEEK" by (simp add: WEEK_def)
  then have "fl (real n / WEEK) \<le> fl (1 / 50)"
    using le by (rule fl_mono)
  with le show ?thesis by simp
next
  case False
  then have "12096001 \<le> n" by simp
  then have "(12096001::real) \<le> real n" by (simp add: of_nat_le_iff [symmetric] del: of_nat_le_iff)
  then have ge: "12096001 / 604800000 \<le> real n / WEEK" by (simp add: WEEK_def)
  then have m: "fl (12096001 / 604800000) \<le> fl (real n / WEEK)"
    by (intro fl_mono) simp_all
  have a: "fl (1 / 50) = 5764607523034235 / 288230376151711744"
    using fl_eval_small [of "1 / 50" 6] by (simp add: rne_def)
  have b: "fl (12096001 / 604800000) > 5764607523034235 / 288230376151711744"
    using fl_eval_small [of "12096001 / 604800000" 6] by (simp add: rne_def)
  from ge have "real n / WEEK > 1 / 50" by (simp add: WEEK_def)
  with m a b show ?thesis by simp
qed

lemmas eval_defs = checkSingleCandidate_def blocks_def block_defs ex_defs WEEK_def
  truthyStr_def Let_def reaches_def fadd_def fsub_def fdiv_def fl_002

subsection \<open>Running the blocks\<close>

lemma runBlocks_pass_prefix:
  "list_all (\<lambda>b. snd b = Next) bs \<Longrightarrow>
     runBlocks (bs @ cs) = (concat (map fst bs) @ fst (runBlocks cs), snd (runBlocks cs))"
proof (induction bs)
  case Nil
  then show ?case by simp
next
  case (Cons b bs)
  obtain es s where b: "b = (es, s)" by (cases b)
  with Cons show ?case by simp
qed

lemma reaches_run:
  assumes "reaches n this w c tbl"
  shows "checkSingleCandidate this w c tbl =
      (concat (map fst (take n (blocks this w c tbl)))
         @ fst (runBlocks (drop n (blocks this w c tbl))),
       snd (runBlocks (drop n (blocks this w c tbl))))"
proof -
  have "blocks this w c tbl = take n (blocks this w c tbl) @ drop n (blocks this w c tbl)"
    by simp
  then have "checkSingleCandidate this w c tbl =
     runBlocks (take n (blocks this w c tbl) @ drop n (blocks this w c tbl))"
    by (simp add: checkSingleCandidate_def)
  also have "\<dots> = (concat (map fst (take n (blocks this w c tbl)))
         @ fst (runBlocks (drop n (blocks this w c tbl))),
       snd (runBlocks (drop n (blocks this w c tbl))))"
    using assms by (intro runBlocks_pass_prefix) (simp add: reaches_def)
  finally show ?thesis .
qed

lemma drop10: "drop 10 (blocks this w c tbl) = [kusamaBlock w c]"
  by (simp add: blocks_def)

lemma drop9: "drop 9 (blocks this w c tbl) = [unclaimedBlock this w c, kusamaBlock w c]"
  by (simp add: blocks_def)

lemma runBlocks_single: "snd (runBlocks [b]) = (case snd b of Next \<Rightarrow> Inr (True, []) | Return v \<Rightarrow> Inr v | Raise x \<Rightarrow> Inl x)"
  by (cases b; cases "snd b") auto

lemma drop9_run:
  "snd (runBlocks [unclaimedBlock this w c, kusamaBlock w c]) =
     (case snd (unclaimedBlock this w c) of
        Next \<Rightarrow> snd (runBlocks [kusamaBlock w c])
      | Return v \<Rightarrow> Inr v
      | Raise x \<Rightarrow> Inl x)"
  by (cases "unclaimedBlock this w c"; cases "snd (unclaimedBlock this w c)") auto

lemma runBlocks_snoc_Next: "snd (runBlocks (bs @ [(es, Next)])) = snd (runBlocks bs)"
proof (induction bs)
  case Nil
  show ?case by simp
next
  case (Cons b bs)
  obtain es' s where b: "b = (es', s)" by (cases b)
  show ?case using Cons by (cases s) (simp_all add: b)
qed

lemma blocks_snoc:
  "blocks this w c tbl = butlast (blocks this w c tbl) @ [kusamaBlock w c]"
  by (simp add: blocks_def)

subsection \<open>C1: a skipped version check that throws\<close>

text \<open>
  Claim C1 at its failing input. The configuration skips the client-version check, there
  is a latest release, and the candidate's version string is one that \<open>semver.coerce\<close>
  cannot read. Each of the ten other blocks falls through for this candidate, so every
  applicable check passes, and with a readable version the same call returns
  \<open>[true, ""]\<close>. Yet the call returns no verdict: line 174 calls \<open>semver.gte\<close> on
  \<open>null\<close> before line 175 looks at \<open>skipClientUpgrade\<close> (the other skip flags, at
  lines 181, 189, 224 and 258, each guard their whole block), the call throws after the
  reads of the first three checks, out of a function that line 140 documents as returning
  true or \<open>[false, "reason"]\<close>, and the exception ends the whole pass of
  \<open>getValidCandidates\<close>, also for the valid candidate before it.
\<close>

theorem C1_skipped_version_check_throws:
  "skipClientUpgrade exOtvSkipUpgrade
   \<and> getLatestRelease exWorld = Some ''v0.9.0''
   \<and> version exCandidateUnknown = ''unknown''
   \<and> semver_coerce exWorld ''unknown'' = None
   \<and> map snd (blocks exOtvSkipUpgrade exWorld exCandidateUnknown exTable) =
       [Next, Next, Raise TypeError, Next, Next, Next, Next, Next, Next, Next, Next]
   \<and> checkSingleCandidate exOtvSkipUpgrade exWorld exCandidateUnknown exTable =
       ([GetValidators, GetLatestRelease], Inl TypeError)
   \<and> checkSingleCandidate exOtvSkipUpgrade exWorld exCandidate exTable =
       ([GetValidators, GetLatestRelease, HasIdentity ''A'', GetIdentity ''A'',
         DestinationIsStaked ''A'', GetCommission ''A'', GetBondedAmount ''A'',
         GetActiveEraIndex, AxiosGet ''https://kusama.example/candidate/K''],
        Inr (True, []))
   \<and> getValidCandidates exOtvSkipUpgrade exWorld [exCandidate, exCandidateUnknown] exTable =
       ([GetValidators, GetLatestRelease, HasIdentity ''A'', GetIdentity ''A'',
         DestinationIsStaked ''A'', GetCommission ''A'', GetBondedAmount ''A'',
         GetActiveEraIndex, AxiosGet ''https://kusama.example/candidate/K'',
         GetValidators, GetLatestRelease],
        Inl TypeError)"
proof -
  have a: "checkSingleCandidate exOtvSkipUpgrade exWorld exCandidateUnknown exTable =
       ([GetValidators, GetLatestRelease], Inl TypeError)"
    by (simp add: eval_defs exOtvSkipUpgrade_def exCandidateUnknown_def)
  have b: "checkSingleCandidate exOtvSkipUpgrade exWorld exCandidate exTable =
       ([GetValidators, GetLatestRelease, HasIdentity ''A'', GetIdentity ''A'',
         DestinationIsStaked ''A'', GetCommission ''A'', GetBondedAmount ''A'',
         GetActiveEraIndex, AxiosGet ''https://kusama.example/candidate/K''],
        Inr (True, []))"
    by (simp add: eval_defs exOtvSkipUpgrade_def)
  have c: "map snd (blocks exOtvSkipUpgrade exWorld exCandidateUnknown exTable) =
       [Next, Next, Raise TypeError, Next, Next, Next, Next, Next, Next, Next, Next]"
    by (simp add: eval_defs exOtvSkipUpgrade_def exCandidateUnknown_def)
  have d: "skipClientUpgrade exOtvSkipUpgrade" "getLatestRelease exWorld = Some ''v0.9.0''"
    "version exCandidateUnknown = ''unknown''" "semver_coerce exWorld ''unknown'' = None"
    by (simp_all add: ex_defs exOtvSkipUpgrade_def exCandidateUnknown_def)
  have e: "getValidCandidates exOtvSkipUpgrade exWorld [exCandidate, exCandidateUnknown] exTable =
       ([GetValidators, GetLatestRelease, HasIdentity ''A'', GetIdentity ''A'',
         DestinationIsStaked ''A'', GetCommission ''A'', GetBondedAmount ''A'',
         GetActiveEraIndex, AxiosGet ''https://kusama.example/candidate/K'',
         GetValidators, GetLatestRelease],
        Inl TypeError)"
    by (simp add: getValidCandidates_def a b)
  from a b c d e show ?thesis by simp
qed

subsection \<open>C2: errors of the chain-data reads\<close>

text \<open>The commission read and the bonded read do surface their error as the reason.\<close>

lemma commission_error_is_reason:
  assumes "getCommission w (stash c) = (v, err)" and "truthyStr err"
  shows "commissionBlock this w c =
     ([GetCommission (stash c)], Return (False, [Str (name c), Str '' '', Str (the err)]))"
  using assms by (simp add: commissionBlock_def)

lemma bonded_error_is_reason:
  assumes "\<not> skipSelfStake c" and "getBondedAmount w (stash c) = (v, err2)" and "truthyStr err2"
  shows "selfStakeBlock this w c =
     ([GetBondedAmount (stash c)], Return (False, [Str (name c), Str '' '', Str (the err2)]))"
  using assms by (simp add: selfStakeBlock_def)

text \<open>
  Claim C2 at its failing input. The era read returns a \<open>null\<close> value with the error
  "Active era not found"; the candidate has an unclaimed era 90 and passes the nine earlier
  checks. The error is never looked at, the threshold is computed from the value slot
  (0 - 4 - 1), and the verdict is \<open>[true, ""]\<close>.
\<close>

theorem C2_era_error_is_ignored:
  "getActiveEraIndex exWorldEraError = (0, Some ''Active era not found'')
   \<and> unclaimedEras exCandidate90Only = Some [90]
   \<and> checkSingleCandidate exOtv exWorldEraError exCandidate90Only exTable =
       ([GetValidators, GetLatestRelease, HasIdentity ''A'', GetIdentity ''A'',
         DestinationIsStaked ''A'', GetCommission ''A'', GetBondedAmount ''A'',
         GetActiveEraIndex],
        Inr (True, []))"
  by (simp add: eval_defs exWorldEraError_def exCandidate90Only_def)

subsection \<open>C3: the unclaimed-eras threshold\<close>

lemma kusama_reason_differs:
  "snd (runBlocks [kusamaBlock w c]) \<noteq>
     Inr (False, [Str n, Str '' has unclaimed eras: '', Nums eras, Str '' prior to era: '', NumP x])"
  by (simp add: kusamaBlock_def Let_def split: option.splits sum.splits)

text \<open>
  Claim C3, as stated, fails in the arithmetic of the code. With current era 2^54,
  \<open>unclaimedEraThreshold\<close> 4 and the one unclaimed era 2^54 - 4, the threshold of the
  claim is 2^54 - 5, which the era exceeds; but the second subtraction of line 260
  rounds to 2^54 - 4, and the verdict is Invalid with the unclaimed-eras reason.
\<close>

theorem C3_counterexample:
  "reaches 9 exOtv exWorldHugeEra exCandidateHugeEra exTable
   \<and> \<not> skipUnclaimed exOtv
   \<and> unclaimedEras exCandidateHugeEra = Some [18014398509481980]
   \<and> fst (getActiveEraIndex exWorldHugeEra) = 18014398509481984
   \<and> unclaimedEraThreshold exOtv = 4
   \<and> specThreshold exOtv exWorldHugeEra = 18014398509481979
   \<and> \<not> 18014398509481980 \<le> specThreshold exOtv exWorldHugeEra
   \<and> snd (checkSingleCandidate exOtv exWorldHugeEra exCandidateHugeEra exTable) =
       Inr (False, [Str ''alice'', Str '' has unclaimed eras: '', Nums [18014398509481980],
                    Str '' prior to era: '', NumP 18014398509481980])"
proof -
  have f: "fl 18014398509481980 = 18014398509481980"
    "fl 18014398509481979 = 18014398509481980"
    "fl 18014398509481981 = 18014398509481980"
    using fl_eval_53 [of 18014398509481980] fl_eval_53 [of 18014398509481979]
      fl_eval_53 [of 18014398509481981]
    by (simp_all add: rne_def)
  have r: "reaches 9 exOtv exWorldHugeEra exCandidateHugeEra exTable"
    by (simp add: eval_defs exWorldHugeEra_def exCandidateHugeEra_def)
  have t: "specThreshold exOtv exWorldHugeEra = 18014398509481979"
    by (simp add: specThreshold_def exWorldHugeEra_def ex_defs)
  have v: "snd (checkSingleCandidate exOtv exWorldHugeEra exCandidateHugeEra exTable) =
       Inr (False, [Str ''alice'', Str '' has unclaimed eras: '', Nums [18014398509481980],
                    Str '' prior to era: '', NumP 18014398509481980])"
    by (simp add: eval_defs exWorldHugeEra_def exCandidateHugeEra_def f)
  have e: "\<not> skipUnclaimed exOtv"
    "unclaimedEras exCandidateHugeEra = Some [18014398509481980]"
    "fst (getActiveEraIndex exWorldHugeEra) = 18014398509481984"
    "unclaimedEraThreshold exOtv = 4"
    by (simp_all add: ex_defs exWorldHugeEra_def exCandidateHugeEra_def)
  from r t v e show ?thesis by simp
qed

text \<open>
  Claim C3, amended to the arithmetic of the code. A call reaches the unclaimed-rewards
  block (the nine blocks before it fall through), \<open>skipUnclaimed\<close> is false and
  \<open>unclaimedEras\<close> is present. With the threshold that line 260 computes, the double
  (currentEra - unclaimedEraThreshold) - 1 with each subtraction rounded, the verdict is
  Invalid with the unclaimed-eras reason if and only if some entry of \<open>unclaimedEras\<close>
  is at most the threshold. When the current era and \<open>unclaimedEraThreshold\<close> are whole
  numbers below 2^53, that threshold is currentEra - unclaimedEraThreshold - 1 exactly.
  The witness is the scenario of the spec: eras [90], current era 100,
  \<open>unclaimedEraThreshold\<close> 4, threshold 95, verdict Invalid.
\<close>

theorem C3_unclaimed_threshold:
  assumes "reaches 9 this w c tbl"
    and "\<not> skipUnclaimed this"
    and "unclaimedEras c = Some eras"
  shows "(snd (checkSingleCandidate this w c tbl) =
            Inr (False, [Str (name c), Str '' has unclaimed eras: '', Nums eras,
                         Str '' prior to era: '', NumP (fadd (eraThreshold this w) 1)])
          \<longleftrightarrow> (\<exists>era \<in> set eras. era \<le> eraThreshold this w))
         \<and> (fst (getActiveEraIndex w) = real n \<and> unclaimedEraThreshold this = real m
              \<and> n < 2 ^ 53 \<and> m < 2 ^ 53
            \<longrightarrow> eraThreshold this w = specThreshold this w)"
proof -
  have run: "snd (checkSingleCandidate this w c tbl) =
      snd (runBlocks [unclaimedBlock this w c, kusamaBlock w c])"
    by (simp add: reaches_run [OF assms(1)] drop9)
  have verdict: "snd (checkSingleCandidate this w c tbl) =
            Inr (False, [Str (name c), Str '' has unclaimed eras: '', Nums eras,
                         Str '' prior to era: '', NumP (fadd (eraThreshold this w) 1)])
          \<longleftrightarrow> (\<exists>era \<in> set eras. era \<le> eraThreshold this w)"
  proof (cases "\<exists>era \<in> set eras. era \<le> eraThreshold this w")
    case True
    then have "\<not> list_all (\<lambda>era. era > eraThreshold this w) eras"
      by (force simp: list_all_iff not_less)
    then have "snd (unclaimedBlock this w c) =
        Return (False, [Str (name c), Str '' has unclaimed eras: '', Nums eras,
                        Str '' prior to era: '', NumP (fadd (eraThreshold this w) 1)])"
      using assms(2,3)
      by (simp add: unclaimedBlock_def eraThreshold_def Let_def case_prod_beta)
    with True show ?thesis by (simp add: run drop9_run)
  next
    case False
    then have "list_all (\<lambda>era. era > eraThreshold this w) eras"
      by (force simp: list_all_iff not_le)
    then have "snd (unclaimedBlock this w c) = Next"
      using assms(2,3)
      by (simp add: unclaimedBlock_def eraThreshold_def Let_def case_prod_beta)
    with False show ?thesis
      by (simp add: run drop9_run kusama_reason_differs)
  qed
  have exact: "eraThreshold this w = specThreshold this w"
    if "fst (getActiveEraIndex w) = real n" "unclaimedEraThreshold this = real m"
      "n < 2 ^ 53" "m < 2 ^ 53"
    using threshold_exact [OF that(3,4)] that(1,2)
    by (simp add: eraThreshold_def specThreshold_def)
  from verdict exact show ?thesis by blast
qed

theorem C3_witness:
  "reaches 9 exOtv exWorld exCandidate90 exTable
   \<and> \<not> skipUnclaimed exOtv
   \<and> unclaimedEras exCandidate90 = Some [90]
   \<and> fst (getActiveEraIndex exWorld) = 100
   \<and> unclaimedEraThreshold exOtv = 4
   \<and> eraThreshold exOtv exWorld = 95
   \<and> specThreshold exOtv exWorld = 95
   \<and> snd (checkSingleCandidate exOtv exWorld exCandidate90 exTable) =
       Inr (False, [Str ''alice'', Str '' has unclaimed eras: '', Nums [90],
                    Str '' prior to era: '', NumP 96])"
proof -
  have h1: "reaches 9 exOtv exWorld exCandidate90 exTable"
    by (simp add: eval_defs exCandidate90_def)
  have h2: "\<not> skipUnclaimed exOtv"
    by (simp add: ex_defs)
  have h3: "unclaimedEras exCandidate90 = Some [90]"
    by (simp add: exCandidate90_def)
  have t: "specThreshold exOtv exWorld = 95" "eraThreshold exOtv exWorld = 95"
    by (simp_all add: specThreshold_def eraThreshold_def fsub_def ex_defs)
  have n: "name exCandidate90 = ''alice''"
    by (simp add: exCandidate90_def ex_defs)
  have e: "fst (getActiveEraIndex exWorld) = 100" "unclaimedEraThreshold exOtv = 4"
    by (simp_all add: ex_defs)
  from C3_unclaimed_threshold [OF h1 h2 h3, of 100 4] h1 h2 h3 t n e
  show ?thesis by (simp add: fadd_def)
qed

subsection \<open>An example run of getValidCandidates\<close>

lemma ex_check_alice:
  "checkSingleCandidate exOtv exWorldScaled exCandidate exTable2 =
     ([GetValidators, GetLatestRelease, HasIdentity ''A'', GetIdentity ''A'',
       DestinationIsStaked ''A'', GetCommission ''A'', GetBondedAmount ''A'', GetActiveEraIndex,
       AxiosGet ''https://kusama.example/candidate/K''], Inr (True, []))"
  by (simp add: eval_defs exWorldScaled_def exTable2_def)

lemma ex_check_bob:
  "checkSingleCandidate exOtv exWorldScaled exCandidateBob exTable2 =
     ([GetValidators, GetLatestRelease, HasIdentity ''B'', GetIdentity ''B'',
       DestinationIsStaked ''B'', GetCommission ''B'', GetBondedAmount ''B'', GetActiveEraIndex,
       AxiosGet ''https://kusama.example/candidate/K''], Inr (True, []))"
  by (simp add: eval_defs exWorldScaled_def exTable2_def exCandidateBob_def)

lemma ex_validLoop:
  "snd (validLoop exOtv exWorldScaled [exCandidate, exCandidateBob] exTable2) =
     Inr [exCandidate, exCandidateBob]"
  by (simp add: ex_check_alice ex_check_bob)

lemma ex_run:
  "\<exists>es. getValidCandidates exOtv exWorldScaled [exCandidate, exCandidateBob] exTable2 =
     (es, Inr (exOtv \<lparr> validCache := sort_key (\<lambda>r. - total (r_aggregate r))
                 (snd (scoreLoop exWorldScaled [exCandidate, exCandidateBob] 0
                         [exCandidate, exCandidateBob])) \<rparr>,
               sort_key (\<lambda>r. - total (r_aggregate r))
                 (snd (scoreLoop exWorldScaled [exCandidate, exCandidateBob] 0
                         [exCandidate, exCandidateBob]))))"
  using ex_validLoop
  by (cases "validLoop exOtv exWorldScaled [exCandidate, exCandidateBob] exTable2")
     (auto simp: getValidCandidates_def Let_def case_prod_beta simp del: validLoop.simps)

lemma ex_score_alice:
  "scoreOf exWorldScaled vs i exCandidate =
     \<lparr> total = 107, aggregate = 107, sc_inclusion = 5, sc_spanInclusion = 40, discovered = 5,
       nominated = 35, sc_rank = 0, unclaimed = 15, sc_bonded = 0, sc_faults = 5, offline = 2,
       randomness = 1, updated = 1209600000 \<rparr>"
  by (simp add: scoreOf_def exWorldScaled_def exWorld_def exCandidate_def weight_defs Let_def
        fadd_def fsub_def fmul_def)

lemma ex_score_bob:
  "scoreOf exWorldScaled vs i exCandidateBob =
     \<lparr> total = 120, aggregate = 120, sc_inclusion = 5, sc_spanInclusion = 40, discovered = 5,
       nominated = 35, sc_rank = 0, unclaimed = 15, sc_bonded = 13, sc_faults = 5, offline = 2,
       randomness = 1, updated = 1209600000 \<rparr>"
  by (simp add: scoreOf_def exWorldScaled_def exWorld_def exCandidate_def exCandidateBob_def
        weight_defs Let_def fadd_def fsub_def fmul_def)

lemma ex_ranking:
  "map (\<lambda>r. (r_stash r, total (r_aggregate r)))
     (sort_key (\<lambda>r. - total (r_aggregate r))
        (snd (scoreLoop exWorldScaled [exCandidate, exCandidateBob] 0
                [exCandidate, exCandidateBob])))
   = [(''B'', 120), (''A'', 107)]"
proof -
  have st: "stash exCandidate = ''A''" "stash exCandidateBob = ''B''"
    by (simp_all add: exCandidate_def exCandidateBob_def)
  show ?thesis
    by (simp add: Let_def case_prod_beta rankedOf_def ex_score_alice ex_score_bob st)
qed

subsection \<open>C4: the score record\<close>

lemma scoreOf_ok:
  assumes "0 \<le> random w i" and "random w i < 1"
  shows "scoreRecordOk (scoreOf w vs i c)"
  using jitter_bounds [OF assms]
  by (simp add: scoreRecordOk_def sumOfSubScores_def scoreOf_def Let_def)

lemma runBlocks_effects:
  "e \<in> set (fst (runBlocks bs)) \<Longrightarrow> \<exists>b \<in> set bs. e \<in> set (fst b)"
proof (induction bs)
  case Nil
  then show ?case by simp
next
  case (Cons b bs)
  obtain es s where b: "b = (es, s)" by (cases b)
  show ?case using Cons by (cases s) (auto simp: b)
qed

lemma block_persists_nothing:
  "e \<in> set (fst (onlineBlock c)) \<Longrightarrow> persistedScore e = None"
  "e \<in> set (fst (intentionBlock w c)) \<Longrightarrow> persistedScore e = None"
  "e \<in> set (fst (versionBlock this w c)) \<Longrightarrow> persistedScore e = None"
  "e \<in> set (fst (connectionBlock this w c)) \<Longrightarrow> persistedScore e = None"
  "e \<in> set (fst (identityBlock this w c tbl)) \<Longrightarrow> persistedScore e = None"
  "e \<in> set (fst (uptimeBlock c)) \<Longrightarrow> persistedScore e = None"
  "e \<in> set (fst (destinationBlock this w c)) \<Longrightarrow> persistedScore e = None"
  "e \<in> set (fst (commissionBlock this w c)) \<Longrightarrow> persistedScore e = None"
  "e \<in> set (fst (selfStakeBlock this w c)) \<Longrightarrow> persistedScore e = None"
  "e \<in> set (fst (unclaimedBlock this w c)) \<Longrightarrow> persistedScore e = None"
  "e \<in> set (fst (kusamaBlock w c)) \<Longrightarrow> persistedScore e = None"
  by (auto simp: block_defs Let_def case_prod_beta split: if_splits option.splits sum.splits)

lemma blocks_persist_nothing:
  assumes "b \<in> set (blocks this w c tbl)" and "e \<in> set (fst b)"
  shows "persistedScore e = None"
  using assms block_persists_nothing [of e]
  by (auto simp: blocks_def)

lemma check_persists_nothing:
  "e \<in> set (fst (checkSingleCandidate this w c tbl)) \<Longrightarrow> persistedScore e = None"
  unfolding checkSingleCandidate_def
  using runBlocks_effects blocks_persist_nothing by blast

lemma validLoop_persists_nothing:
  "e \<in> set (fst (validLoop this w cs tbl)) \<Longrightarrow> persistedScore e = None"
proof (induction cs)
  case Nil
  then show ?case by simp
next
  case (Cons c cs)
  obtain es r where k: "checkSingleCandidate this w c tbl = (es, r)"
    by (cases "checkSingleCandidate this w c tbl")
  obtain es' r' where v: "validLoop this w cs tbl = (es', r')"
    by (cases "validLoop this w cs tbl")
  have "e \<in> set es \<or> e \<in> set es'"
    using Cons.prems k v
    by (cases r; cases r') (auto split: prod.splits)
  then show ?case
    using check_persists_nothing [of e this w c tbl] Cons.IH k v by auto
qed

lemma scoreLoop_ok:
  assumes "\<forall>i. 0 \<le> random w i \<and> random w i < 1"
  shows "(\<forall>e \<in> set (fst (scoreLoop w vs i cs)). \<forall>sc. persistedScore e = Some sc \<longrightarrow> scoreRecordOk sc)
         \<and> (\<forall>r \<in> set (snd (scoreLoop w vs i cs)). scoreRecordOk (r_aggregate r))"
proof (induction cs arbitrary: i)
  case Nil
  show ?case by simp
next
  case (Cons c cs)
  have "scoreRecordOk (scoreOf w vs i c)"
    using assms by (intro scoreOf_ok) simp_all
  with Cons [of "Suc i"] show ?case
    by (auto simp: Let_def case_prod_beta rankedOf_def)
qed

text \<open>The example of three candidates: the populations, the sub-scores of the second
  candidate, and the roundings on the way to its aggregate, jitter and total.\<close>

lemma fl_third: "fl (1 / 3) = 6004799503160661 / 18014398509481984"
  using fl_eval_small [of "1 / 3" 2] by (simp add: rne_def)

lemma minMax_rank: "minMax 3 [0, 3, 9] = 6004799503160661 / 18014398509481984"
  by (simp add: minMax_def fsub_def fl_third)

lemma minMax_same: "minMax v [x, x, x] = 0"
  by (simp add: minMax_def)

lemma ex3_populations:
  "rankValues exCandidates3 = [0, 3, 9]"
  "inclusionValues exCandidates3 = [0, 0, 0]"
  "spanInclusionValues exCandidates3 = [0, 0, 0]"
  "discoveredAtValues exCandidates3 = [0, 0, 0]"
  "nominatedAtValues exCandidates3 = [0, 0, 0]"
  "unclaimedValues exCandidates3 = [1, 1, 1]"
  "bondedValues exCandidates3 = [100, 100, 100]"
  "offlineValues exCandidates3 = [0, 0, 0]"
  "faultsValues exCandidates3 = [0, 0, 0]"
  by (simp_all add: rankValues_def inclusionValues_def spanInclusionValues_def
        discoveredAtValues_def nominatedAtValues_def unclaimedValues_def bondedValues_def
        offlineValues_def faultsValues_def exCandidates3_def exCandidateLow_def
        exCandidateHigh_def exCandidate_def orZero_def)

lemma ex3_fields:
  "random exWorldDoubles i = 1 - 1 / 2 ^ 52"
  "scaled exWorldDoubles = minMax"
  "rank exCandidate = 3" "inclusion exCandidate = 0" "spanInclusion exCandidate = 0"
  "discoveredAt exCandidate = 0" "nominatedAt exCandidate = 0"
  "unclaimedEras exCandidate = Some [99]" "bonded exCandidate = 100"
  "offlineAccumulated exCandidate = 0" "faults exCandidate = 0"
  by (simp_all add: exWorldDoubles_def exCandidate_def)

lemma ex3_rank:
  "sc_rank (scoreOf exWorldDoubles exCandidates3 i exCandidate)
     = 3752999689475413 / 2251799813685248"
proof -
  have r: "fl (30023997515803305 / 18014398509481984) = 3752999689475413 / 2251799813685248"
    using fl_eval_unit [of "30023997515803305 / 18014398509481984"] by (simp add: rne_def)
  show ?thesis
    by (simp add: scoreOf_def ex3_fields ex3_populations minMax_rank weight_defs Let_def
          fmul_def r)
qed

lemma ex3_others:
  "sc_inclusion (scoreOf exWorldDoubles exCandidates3 i exCandidate) = 5"
  "sc_spanInclusion (scoreOf exWorldDoubles exCandidates3 i exCandidate) = 40"
  "discovered (scoreOf exWorldDoubles exCandidates3 i exCandidate) = 5"
  "nominated (scoreOf exWorldDoubles exCandidates3 i exCandidate) = 35"
  "unclaimed (scoreOf exWorldDoubles exCandidates3 i exCandidate) = 15"
  "sc_bonded (scoreOf exWorldDoubles exCandidates3 i exCandidate) = 0"
  "sc_faults (scoreOf exWorldDoubles exCandidates3 i exCandidate) = 5"
  "offline (scoreOf exWorldDoubles exCandidates3 i exCandidate) = 2"
  by (simp_all add: scoreOf_def ex3_fields ex3_populations minMax_same weight_defs
        Let_def fsub_def fmul_def)

lemma ex3_sum:
  "fadd (fadd (fadd (fadd (fadd (fadd (fadd (fadd 5 40) 5) 5) 35)
     (3752999689475413 / 2251799813685248)) 15) 0) 2 = 7646736867306155 / 70368744177664"
proof -
  have a1: "fl (206414982921147733 / 2251799813685248) = 6450468216285867 / 70368744177664"
    using fl_eval_large [of 6 "206414982921147733 / 2251799813685248"] by (simp add: rne_def)
  have a2: "fl (7505999378950827 / 70368744177664) = 7505999378950827 / 70368744177664"
    using fl_eval_large [of 6 "7505999378950827 / 70368744177664"] by (simp add: rne_def)
  have a3: "fl (7646736867306155 / 70368744177664) = 7646736867306155 / 70368744177664"
    using fl_eval_large [of 6 "7646736867306155 / 70368744177664"] by (simp add: rne_def)
  have s1: "fadd (fadd (fadd (fadd 5 40) 5) 5) 35 = 90"
    by (simp add: fadd_def)
  have s2: "fadd 90 (3752999689475413 / 2251799813685248) = 6450468216285867 / 70368744177664"
    by (simp add: fadd_def a1)
  have s3: "fadd (6450468216285867 / 70368744177664) 15 = 7505999378950827 / 70368744177664"
    by (simp add: fadd_def a2)
  have s4: "fadd (7505999378950827 / 70368744177664) 0 = 7505999378950827 / 70368744177664"
    by (simp add: fadd_def a2)
  have s5: "fadd (7505999378950827 / 70368744177664) 2 = 7646736867306155 / 70368744177664"
    by (simp add: fadd_def a3)
  show ?thesis
    by (simp only: s1 s2 s3 s4 s5)
qed

lemma scoreOf_aggregate:
  "aggregate (scoreOf w vs i c) = sumOfSubScores (scoreOf w vs i c)"
  by (simp add: scoreOf_def sumOfSubScores_def Let_def)

lemma scoreOf_total:
  "total (scoreOf w vs i c)
     = fmul (aggregate (scoreOf w vs i c)) (randomness (scoreOf w vs i c))"
  by (simp add: scoreOf_def Let_def)

lemma ex3_aggregate:
  "aggregate (scoreOf exWorldDoubles exCandidates3 i exCandidate)
     = 7646736867306155 / 70368744177664"
  unfolding scoreOf_aggregate sumOfSubScores_def
  by (simp only: ex3_rank ex3_others ex3_sum)

lemma ex3_randomness:
  "randomness (scoreOf exWorldDoubles exCandidates3 i exCandidate)
     = 4728779608739021 / 4503599627370496"
proof -
  have a: "fl (4503599627370495 * double005 / 4503599627370496)
             = 900719925474099 / 18014398509481984"
    using fl_eval_small [of "4503599627370495 * double005 / 4503599627370496" 5]
    by (simp add: rne_def double005_def)
  have b: "fl (18915118434956083 / 18014398509481984)
             = 4728779608739021 / 4503599627370496"
    using fl_eval_unit [of "18915118434956083 / 18014398509481984"]
    by (simp add: rne_def)
  show ?thesis
    by (simp add: scoreOf_def Let_def fadd_def fmul_def fl_005 ex3_fields a b)
qed

lemma ex3_total:
  "total (scoreOf exWorldDoubles exCandidates3 i exCandidate)
     = 8029073710671463 / 70368744177664"
proof -
  have t: "fl (36159733371510246783300701974255 / 316912650057057350374175801344)
             = 8029073710671463 / 70368744177664"
    using fl_eval_large [of 6 "36159733371510246783300701974255 / 316912650057057350374175801344"]
    by (simp add: rne_def)
  show ?thesis
    unfolding scoreOf_total ex3_aggregate ex3_randomness
    by (simp add: fmul_def t)
qed

lemma ex3_check:
  "checkSingleCandidate exOtv exWorldDoubles exCandidateLow exTable3 =
     ([GetValidators, GetLatestRelease, HasIdentity ''B'', GetIdentity ''B'',
       DestinationIsStaked ''B'', GetCommission ''B'', GetBondedAmount ''B'', GetActiveEraIndex,
       AxiosGet ''https://kusama.example/candidate/K''], Inr (True, []))"
  "checkSingleCandidate exOtv exWorldDoubles exCandidate exTable3 =
     ([GetValidators, GetLatestRelease, HasIdentity ''A'', GetIdentity ''A'',
       DestinationIsStaked ''A'', GetCommission ''A'', GetBondedAmount ''A'', GetActiveEraIndex,
       AxiosGet ''https://kusama.example/candidate/K''], Inr (True, []))"
  "checkSingleCandidate exOtv exWorldDoubles exCandidateHigh exTable3 =
     ([GetValidators, GetLatestRelease, HasIdentity ''C'', GetIdentity ''C'',
       DestinationIsStaked ''C'', GetCommission ''C'', GetBondedAmount ''C'', GetActiveEraIndex,
       AxiosGet ''https://kusama.example/candidate/K''], Inr (True, []))"
  by (simp_all add: eval_defs exWorldDoubles_def exTable3_def exCandidateLow_def
        exCandidateHigh_def)

lemma ex3_persisted:
  "SetValidatorScore ''A'' (scoreOf exWorldDoubles exCandidates3 1 exCandidate)
     \<in> set (fst (getValidCandidates exOtv exWorldDoubles exCandidates3 exTable3))"
proof -
  have s: "stash exCandidate = ''A''" "stash exCandidateLow = ''B''"
    "stash exCandidateHigh = ''C''"
    by (simp_all add: exCandidate_def exCandidateLow_def exCandidateHigh_def)
  have v: "validLoop exOtv exWorldDoubles exCandidates3 exTable3
             = (fst (validLoop exOtv exWorldDoubles exCandidates3 exTable3), Inr exCandidates3)"
    by (simp add: exCandidates3_def ex3_check)
  have l: "SetValidatorScore ''A'' (scoreOf exWorldDoubles exCandidates3 1 exCandidate)
             \<in> set (fst (scoreLoop exWorldDoubles exCandidates3 0 exCandidates3))"
    by (simp add: exCandidates3_def Let_def case_prod_beta s)
  show ?thesis
    using l by (subst getValidCandidates_def, subst v) (simp add: Let_def case_prod_beta)
qed

text \<open>
  Claim C4, as stated, fails in the arithmetic of the code. Of three valid candidates with
  the ranks 0, 3 and 9, the second has the rank sub-score 5 * 0.3333333333333333; with
  \<open>Math.random\<close> returning 0.9999999999999998, the score record persisted for it has as
  its jitter the double 1.05 (which is larger than 1.05), not a number below 1.05; its
  aggregate is the rounded sum 108.66666666666667, not the exact sum of the nine
  sub-scores; and its total is the rounded product, not the exact product of aggregate
  and jitter.
\<close>

theorem C4_counterexample:
  "0 \<le> random exWorldDoubles 1 \<and> random exWorldDoubles 1 < 1
   \<and> SetValidatorScore ''A'' (scoreOf exWorldDoubles exCandidates3 1 exCandidate)
        \<in> set (fst (getValidCandidates exOtv exWorldDoubles exCandidates3 exTable3))
   \<and> randomness (scoreOf exWorldDoubles exCandidates3 1 exCandidate)
        = 4728779608739021 / 4503599627370496
   \<and> \<not> randomness (scoreOf exWorldDoubles exCandidates3 1 exCandidate) < 1.05
   \<and> aggregate (scoreOf exWorldDoubles exCandidates3 1 exCandidate)
        \<noteq> sc_inclusion (scoreOf exWorldDoubles exCandidates3 1 exCandidate)
          + sc_spanInclusion (scoreOf exWorldDoubles exCandidates3 1 exCandidate)
          + discovered (scoreOf exWorldDoubles exCandidates3 1 exCandidate)
          + nominated (scoreOf exWorldDoubles exCandidates3 1 exCandidate)
          + sc_rank (scoreOf exWorldDoubles exCandidates3 1 exCandidate)
          + unclaimed (scoreOf exWorldDoubles exCandidates3 1 exCandidate)
          + sc_bonded (scoreOf exWorldDoubles exCandidates3 1 exCandidate)
          + sc_faults (scoreOf exWorldDoubles exCandidates3 1 exCandidate)
          + offline (scoreOf exWorldDoubles exCandidates3 1 exCandidate)
   \<and> total (scoreOf exWorldDoubles exCandidates3 1 exCandidate)
        \<noteq> aggregate (scoreOf exWorldDoubles exCandidates3 1 exCandidate)
          * randomness (scoreOf exWorldDoubles exCandidates3 1 exCandidate)"
  using ex3_persisted
  by (simp add: ex3_fields ex3_randomness ex3_aggregate ex3_total ex3_rank ex3_others)

text \<open>
  Claim C4, amended to the arithmetic of the code. In a call of \<open>getValidCandidates\<close>
  that returns, with every result of \<open>Math.random\<close> in [0, 1), every score object that is
  persisted and every score object in the cache satisfies: aggregate is the sum of the
  nine sub-scores as lines 442-451 add them (in double arithmetic, from the left, in the
  order inclusion, spanInclusion, faults, discovered, nominated, rank, unclaimed, bonded,
  offline); the jitter lies in the closed interval from 1 to the double 1.05; and total
  is the double product of aggregate and jitter.
\<close>

theorem C4_score_record:
  assumes "getValidCandidates this w candidates tbl = (es, Inr (this', rankedCandidates))"
    and "\<forall>i. 0 \<le> random w i \<and> random w i < 1"
  shows "(\<forall>e \<in> set es. \<forall>sc. persistedScore e = Some sc \<longrightarrow> scoreRecordOk sc)
         \<and> (\<forall>r \<in> set (validCache this'). scoreRecordOk (r_aggregate r))"
proof -
  obtain es0 vs where v: "validLoop this w candidates tbl = (es0, Inr vs)"
    using assms(1)
    by (cases "validLoop this w candidates tbl"; cases "snd (validLoop this w candidates tbl)")
       (auto simp: getValidCandidates_def)
  have es: "es = es0 @ [scoreMetadata w vs] @ fst (scoreLoop w vs 0 vs)"
    and c: "validCache this' = sort_key (\<lambda>r. - total (r_aggregate r)) (snd (scoreLoop w vs 0 vs))"
    using assms(1) v by (auto simp: getValidCandidates_def Let_def case_prod_beta)
  have n0: "\<forall>e \<in> set es0. persistedScore e = None"
    using validLoop_persists_nothing [of _ this w candidates tbl] v by simp
  have nm: "persistedScore (scoreMetadata w vs) = None"
    by (simp add: scoreMetadata_def)
  from scoreLoop_ok [OF assms(2), of vs 0 vs] n0 nm show ?thesis
    by (auto simp: es c)
qed

theorem C4_witness:
  "(\<forall>i. 0 \<le> random exWorldScaled i \<and> random exWorldScaled i < 1)
   \<and> (case getValidCandidates exOtv exWorldScaled [exCandidate, exCandidateBob] exTable2 of
        (es, Inl x) \<Rightarrow> False
      | (es, Inr (this', rankedCandidates)) \<Rightarrow>
          map (\<lambda>r. aggregate (r_aggregate r)) (validCache this') = [120, 107]
          \<and> list_all (\<lambda>e. case persistedScore e of None \<Rightarrow> True | Some sc \<Rightarrow> scoreRecordOk sc) es
          \<and> list_all (\<lambda>r. scoreRecordOk (r_aggregate r)) (validCache this'))"
proof -
  have h: "\<forall>i. 0 \<le> random exWorldScaled i \<and> random exWorldScaled i < 1"
    by (simp add: exWorldScaled_def exWorld_def)
  obtain es this' rs where g:
    "getValidCandidates exOtv exWorldScaled [exCandidate, exCandidateBob] exTable2
       = (es, Inr (this', rs))"
    and t: "this' = exOtv \<lparr> validCache := sort_key (\<lambda>r. - total (r_aggregate r))
      (snd (scoreLoop exWorldScaled [exCandidate, exCandidateBob] 0
              [exCandidate, exCandidateBob])) \<rparr>"
    using ex_run by blast
  have a: "map (\<lambda>r. aggregate (r_aggregate r)) (validCache this') = [120, 107]"
    unfolding t
    by (simp add: Let_def case_prod_beta rankedOf_def ex_score_alice ex_score_bob)
  from C4_score_record [OF g h]
  have "list_all (\<lambda>e. case persistedScore e of None \<Rightarrow> True | Some sc \<Rightarrow> scoreRecordOk sc) es
        \<and> list_all (\<lambda>r. scoreRecordOk (r_aggregate r)) (validCache this')"
    by (auto simp: list_all_iff split: option.splits)
  with h a g show ?thesis by simp
qed

subsection \<open>C5: the ranking is sorted and cached\<close>

lemma sorted_desc_total:
  "sorted_wrt (\<lambda>a b. total (r_aggregate a) \<ge> total (r_aggregate b))
     (sort_key (\<lambda>r. - total (r_aggregate r)) rs)"
proof -
  have "sorted (map (\<lambda>r. - total (r_aggregate r)) (sort_key (\<lambda>r. - total (r_aggregate r)) rs))"
    by (rule sorted_sort_key)
  then show ?thesis
    by (simp add: sorted_map)
qed

text \<open>
  Claim C5. The sequence that a call of \<open>getValidCandidates\<close> returns is sorted
  descending by total: of two entries the earlier has the greater or equal total, and so
  have two adjacent ones. The object after the call is the object before it with
  \<open>validCache\<close> replaced by exactly the returned sequence.
\<close>

theorem C5_ranking_sorted_and_cached:
  assumes "getValidCandidates this w candidates tbl = (es, Inr (this', rankedCandidates))"
  shows "sorted_wrt (\<lambda>a b. total (r_aggregate a) \<ge> total (r_aggregate b)) rankedCandidates
         \<and> (\<forall>i. Suc i < length rankedCandidates \<longrightarrow>
                total (r_aggregate (rankedCandidates ! i))
                  \<ge> total (r_aggregate (rankedCandidates ! Suc i)))
         \<and> validCache this' = rankedCandidates
         \<and> this' = this \<lparr> validCache := rankedCandidates \<rparr>"
proof -
  obtain es0 vs where v: "validLoop this w candidates tbl = (es0, Inr vs)"
    using assms
    by (cases "validLoop this w candidates tbl"; cases "snd (validLoop this w candidates tbl)")
       (auto simp: getValidCandidates_def)
  have r: "rankedCandidates =
      sort_key (\<lambda>r. - total (r_aggregate r)) (snd (scoreLoop w vs 0 vs))"
    and t: "this' = this \<lparr> validCache := rankedCandidates \<rparr>"
    using assms v by (auto simp: getValidCandidates_def Let_def case_prod_beta)
  have s: "sorted_wrt (\<lambda>a b. total (r_aggregate a) \<ge> total (r_aggregate b)) rankedCandidates"
    unfolding r by (rule sorted_desc_total)
  have a: "\<forall>i. Suc i < length rankedCandidates \<longrightarrow>
                total (r_aggregate (rankedCandidates ! i))
                  \<ge> total (r_aggregate (rankedCandidates ! Suc i))"
    using s by (auto simp: sorted_wrt_iff_nth_less)
  from s a t show ?thesis by simp
qed

theorem C5_witness:
  "(case snd (getValidCandidates exOtv exWorldScaled [exCandidate, exCandidateBob] exTable2) of
      Inl x \<Rightarrow> False
    | Inr (this', rankedCandidates) \<Rightarrow>
        map (\<lambda>r. (r_stash r, total (r_aggregate r))) rankedCandidates
          = [(''B'', 120), (''A'', 107)]
        \<and> validCache this' = rankedCandidates)"
proof -
  obtain es this' rs where g:
    "getValidCandidates exOtv exWorldScaled [exCandidate, exCandidateBob] exTable2
       = (es, Inr (this', rs))"
    and rs: "rs = sort_key (\<lambda>r. - total (r_aggregate r))
      (snd (scoreLoop exWorldScaled [exCandidate, exCandidateBob] 0
              [exCandidate, exCandidateBob]))"
    using ex_run by blast
  have tt: "map (\<lambda>r. (r_stash r, total (r_aggregate r))) rs = [(''B'', 120), (''A'', 107)]"
    unfolding rs by (rule ex_ranking)
  from C5_ranking_sorted_and_cached [OF g] have "validCache this' = rs"
    by simp
  with tt g show ?thesis by simp
qed

subsection \<open>C6: a failed era read aborts the partition\<close>

text \<open>
  Claim C6, as stated, fails for the one non-null error that is falsy: with the empty
  string as the error of the era read, line 546 does not throw and the cohort is
  partitioned.
\<close>

theorem C6_counterexample:
  "snd (getActiveEraIndex exWorldEmptyEraError) = Some []
   \<and> snd (getActiveEraIndex exWorldEmptyEraError) \<noteq> None
   \<and> processCandidates exOtv exWorldEmptyEraError [Some exCandidate] =
       ([GetActiveEraIndex, GetCommission ''A'', GetBondedAmount ''A'',
         DestinationIsStaked ''A''],
        Inr ([exCandidate], []))"
  by (simp add: processCandidates_def processOne_def pcCommissionBlock_def
        pcSelfStakeBlock_def pcDestinationBlock_def pcUptimeBlock_def fdiv_def fl_002
        exWorldEmptyEraError_def ex_defs truthyStr_def Let_def WEEK_def)

text \<open>
  Claim C6, amended to an error that \<open>if (eraErr)\<close> takes for one (not \<open>null\<close> and not
  the empty string). If the era read returns such an error the call throws that error,
  returns no partition, and has performed no read but the era read. The call throws in no
  other case.
\<close>

theorem C6_era_error_aborts:
  "(truthyStr (snd (getActiveEraIndex w)) \<longrightarrow>
      processCandidates this w cs =
        ([GetActiveEraIndex], Inl (Thrown (the (snd (getActiveEraIndex w))))))
   \<and> ((\<exists>x. snd (processCandidates this w cs) = Inl x)
        \<longleftrightarrow> truthyStr (snd (getActiveEraIndex w)))"
  by (auto simp: processCandidates_def Let_def case_prod_beta)

theorem C6_witness:
  "truthyStr (snd (getActiveEraIndex exWorldEraError))
   \<and> processCandidates exOtv exWorldEraError [Some exCandidate, Some exCandidateBob] =
       ([GetActiveEraIndex], Inl (Thrown ''Active era not found''))"
proof -
  have h: "truthyStr (snd (getActiveEraIndex exWorldEraError))"
    by (simp add: exWorldEraError_def truthyStr_def)
  have e: "the (snd (getActiveEraIndex exWorldEraError)) = ''Active era not found''"
    by (simp add: exWorldEraError_def)
  from C6_era_error_aborts [of exWorldEraError exOtv "[Some exCandidate, Some exCandidateBob]"] h e
  show ?thesis by simp
qed

subsection \<open>C7: a commission above the ceiling\<close>

lemma processLoop_sets:
  "set (fst (snd (processLoop this w cs))) =
     {c. Some c \<in> set cs \<and> snd (processOne this w c) = None}
   \<and> set (snd (snd (processLoop this w cs))) =
     {(c, r). Some c \<in> set cs \<and> snd (processOne this w c) = Some r}"
proof (induction cs)
  case Nil
  show ?case by simp
next
  case (Cons x cs)
  show ?case
  proof (cases x)
    case None
    with Cons show ?thesis by auto
  next
    case (Some candidate)
    show ?thesis
    proof (cases "snd (processOne this w candidate)")
      case None
      with Cons Some show ?thesis
        by (auto simp: case_prod_beta Let_def)
    next
      case (Some r)
      with Cons \<open>x = Some candidate\<close> show ?thesis
        by (auto simp: case_prod_beta Let_def)
    qed
  qed
qed

lemma processOne_high_commission:
  assumes "getCommission w (stash c) = (v, err)" and "\<not> truthyStr err" and "v > commission this"
  shows "processOne this w c =
     ([GetCommission (stash c)],
      Some [Str (name c), Str '' found commission higher than ten percent: '', NumP v])"
  using assms by (simp add: processOne_def pcCommissionBlock_def)

lemma commission_reason_mentions:
  "sublist ''commission''
     (render b [Str n, Str '' found commission higher than ten percent: '', NumP v])"
proof -
  have "render b [Str n, Str '' found commission higher than ten percent: '', NumP v] =
      (n @ '' found '') @ ''commission'' @ ('' higher than ten percent: '' @ numberToString b v)"
    by (simp add: render_def)
  then show ?thesis
    unfolding sublist_def by blast
qed

text \<open>
  Claim C7. In a call of \<open>processCandidates\<close> that returns its partition, every candidate
  of the cohort whose commission read succeeds with a value above the configured ceiling
  is in the bad set, with a reason whose text contains "commission", and is not in the
  good set, whatever its other fields and the other reads are: its iteration ends at the
  commission check, the first of the loop body, after the commission read alone.
\<close>

theorem C7_high_commission_is_bad:
  assumes "processCandidates this w cs = (es, Inr (good, bad))"
    and "Some c \<in> set cs"
    and "getCommission w (stash c) = (v, err)"
    and "\<not> truthyStr err"
    and "v > commission this"
  shows "processOne this w c =
           ([GetCommission (stash c)],
            Some [Str (name c), Str '' found commission higher than ten percent: '', NumP v])
         \<and> (c, [Str (name c), Str '' found commission higher than ten percent: '', NumP v])
           \<in> set bad
         \<and> c \<notin> set good
         \<and> (\<forall>b. sublist ''commission''
               (render b [Str (name c), Str '' found commission higher than ten percent: '',
                          NumP v]))"
proof -
  have gb: "good = fst (snd (processLoop this w cs))" "bad = snd (snd (processLoop this w cs))"
    using assms(1)
    by (auto simp: processCandidates_def Let_def case_prod_beta split: if_splits)
  have po: "processOne this w c =
      ([GetCommission (stash c)],
       Some [Str (name c), Str '' found commission higher than ten percent: '', NumP v])"
    by (rule processOne_high_commission [OF assms(3,4,5)])
  then have one: "snd (processOne this w c) =
      Some [Str (name c), Str '' found commission higher than ten percent: '', NumP v]"
    by simp
  have "(c, [Str (name c), Str '' found commission higher than ten percent: '', NumP v])
          \<in> set bad"
    using processLoop_sets [of this w cs] assms(2) one by (simp add: gb)
  moreover have "c \<notin> set good"
    using processLoop_sets [of this w cs] one by (simp add: gb)
  ultimately show ?thesis
    using po commission_reason_mentions by blast
qed

theorem C7_witness:
  "processCandidates exOtv exWorldHighCommission [Some exCandidate, None] =
      ([GetActiveEraIndex, GetCommission ''A''],
       Inr ([], [(exCandidate,
          [Str ''alice'', Str '' found commission higher than ten percent: '', NumP 15])]))
   \<and> getCommission exWorldHighCommission (stash exCandidate) = (15, None)
   \<and> 15 > commission exOtv
   \<and> sublist ''commission''
       (render (builtins exWorld)
          [Str ''alice'', Str '' found commission higher than ten percent: '', NumP 15])"
proof -
  have h1: "processCandidates exOtv exWorldHighCommission [Some exCandidate, None] =
      ([GetActiveEraIndex, GetCommission ''A''],
       Inr ([], [(exCandidate,
          [Str ''alice'', Str '' found commission higher than ten percent: '', NumP 15])]))"
    by (simp add: processCandidates_def processOne_def pcCommissionBlock_def
          exWorldHighCommission_def ex_defs truthyStr_def Let_def)
  have h2: "Some exCandidate \<in> set [Some exCandidate, None]"
    by simp
  have h3: "getCommission exWorldHighCommission (stash exCandidate) = (15, None)"
    by (simp add: exWorldHighCommission_def)
  have h4: "\<not> truthyStr None"
    by (simp add: truthyStr_def)
  have h5: "15 > commission exOtv"
    by (simp add: exOtv_def)
  have n: "name exCandidate = ''alice''"
    by (simp add: exCandidate_def)
  from C7_high_commission_is_bad [OF h1 h2 h3 h4 h5] h1 h3 h5 n
  show ?thesis by simp
qed

subsection \<open>C8: a failed advisory lookup\<close>

text \<open>
  Claim C8. A candidate has a kusama stash and the cross-network lookup throws. Then the
  cross-network block falls through (the failure is no invalidity reason), and if all ten
  earlier blocks fell through the verdict is \<open>[true, ""]\<close>.
\<close>

theorem C8_lookup_failure_is_swallowed:
  assumes "truthyStr (kusamaStash c)"
    and "axios_get w (lookupUrl w c) = None"
  shows "snd (kusamaBlock w c) = Next \<and>
         (reaches 10 this w c tbl \<longrightarrow> snd (checkSingleCandidate this w c tbl) = Inr (True, []))"
proof -
  have k: "snd (kusamaBlock w c) = Next"
    using assms by (simp add: kusamaBlock_def lookupUrl_def Let_def)
  show ?thesis
  proof (intro conjI impI)
    show "snd (kusamaBlock w c) = Next" by (rule k)
  next
    assume r: "reaches 10 this w c tbl"
    show "snd (checkSingleCandidate this w c tbl) = Inr (True, [])"
      using k by (simp add: reaches_run [OF r] drop10 runBlocks_single)
  qed
qed

theorem C8_witness:
  "truthyStr (kusamaStash exCandidate)
   \<and> axios_get exWorld (lookupUrl exWorld exCandidate) = None
   \<and> reaches 10 exOtv exWorld exCandidate exTable
   \<and> snd (kusamaBlock exWorld exCandidate) = Next
   \<and> snd (checkSingleCandidate exOtv exWorld exCandidate exTable) = Inr (True, [])"
proof -
  have h1: "truthyStr (kusamaStash exCandidate)"
    by (simp add: ex_defs truthyStr_def)
  have h2: "axios_get exWorld (lookupUrl exWorld exCandidate) = None"
    by (simp add: ex_defs)
  have h3: "reaches 10 exOtv exWorld exCandidate exTable"
    by (simp add: eval_defs)
  from C8_lookup_failure_is_swallowed [OF h1 h2, of exOtv exTable] h1 h2 h3
  show ?thesis by blast
qed

subsection \<open>C9: the identity hash table\<close>

lemma update_sum:
  "distinct (map fst m) \<Longrightarrow>
   sum_list (map snd (AList.update k v m)) + (case map_of m k of None \<Rightarrow> 0 | Some x \<Rightarrow> x)
     = sum_list (map snd m) + (v::nat)"
proof (induction m)
  case Nil
  show ?case by simp
next
  case (Cons p m)
  obtain k' x where p: "p = (k', x)" by (cases p)
  show ?case
  proof (cases "k' = k")
    case True
    with Cons.prems p show ?thesis by simp
  next
    case False
    with Cons p show ?thesis by simp
  qed
qed

lemma update_positive:
  assumes "\<forall>(h, n) \<in> set m. 1 \<le> n" and "1 \<le> (v::nat)"
  shows "\<forall>(h, n) \<in> set (AList.update k v m). 1 \<le> n"
  using assms by (induction m) auto

lemma populateLoop_invariant:
  assumes "distinct (map fst m)" and "\<forall>(h, n) \<in> set m. 1 \<le> n"
  shows "distinct (map fst (snd (populateLoop w cs m)))
         \<and> (\<forall>(h, n) \<in> set (snd (populateLoop w cs m)). 1 \<le> n)
         \<and> sum_list (map snd (snd (populateLoop w cs m))) = sum_list (map snd m) + length cs"
  using assms
proof (induction cs arbitrary: m)
  case Nil
  then show ?case by simp
next
  case (Cons c cs)
  define h where "h = blake2AsHex w (getIdentity w (stash c))"
  define prev where "prev = (case map_of m h of None \<Rightarrow> 0 | Some v \<Rightarrow> v)"
  define m1 where "m1 = AList.update h (prev + 1) m"
  have step: "snd (populateLoop w (c # cs) m) = snd (populateLoop w cs m1)"
    by (simp add: h_def prev_def m1_def Let_def case_prod_beta)
  have d1: "distinct (map fst m1)"
    using Cons.prems(1) by (simp add: m1_def distinct_update)
  have p1: "\<forall>(h, n) \<in> set m1. 1 \<le> n"
    unfolding m1_def by (rule update_positive [OF Cons.prems(2)]) simp
  have s1: "sum_list (map snd m1) = sum_list (map snd m) + 1"
    using update_sum [OF Cons.prems(1), of h "prev + 1"]
    by (simp add: m1_def prev_def)
  from Cons.IH [OF d1 p1] s1 show ?case
    by (simp add: step del: populateLoop.simps)
qed

text \<open>
  Claim C9. In the map that \<open>populateIdentityHashTable\<close> returns every count is at least
  1 and the counts add up to the number of candidates of the input list; the map has
  each digest once.
\<close>

theorem C9_counts_sum_to_length:
  "(\<forall>(h, n) \<in> set (snd (populateIdentityHashTable w candidates)). 1 \<le> n)
   \<and> sum_list (map snd (snd (populateIdentityHashTable w candidates))) = length candidates
   \<and> distinct (map fst (snd (populateIdentityHashTable w candidates)))"
  using populateLoop_invariant [of "[]" w candidates]
  by (simp add: populateIdentityHashTable_def)

theorem C9_witness:
  "snd (populateIdentityHashTable exWorld [exCandidate, exCandidateBob, exCandidate])
     = [(''A'', 2), (''B'', 1)]
   \<and> list_all (\<lambda>(h, n). 1 \<le> n)
         (snd (populateIdentityHashTable exWorld [exCandidate, exCandidateBob, exCandidate]))
   \<and> sum_list (map snd
         (snd (populateIdentityHashTable exWorld [exCandidate, exCandidateBob, exCandidate])))
       = 3"
proof -
  have e: "snd (populateIdentityHashTable exWorld [exCandidate, exCandidateBob, exCandidate])
     = [(''A'', 2), (''B'', 1)]"
    by (simp add: populateIdentityHashTable_def exWorld_def exCandidate_def exCandidateBob_def
          Let_def)
  from C9_counts_sum_to_length [of exWorld "[exCandidate, exCandidateBob, exCandidate]"]
  have "list_all (\<lambda>(h, n). 1 \<le> n)
         (snd (populateIdentityHashTable exWorld [exCandidate, exCandidateBob, exCandidate]))
     \<and> sum_list (map snd
         (snd (populateIdentityHashTable exWorld [exCandidate, exCandidateBob, exCandidate])))
       = 3"
    by (simp add: list_all_iff)
  with e show ?thesis by blast
qed

subsection \<open>C10: a rank that is not a number\<close>

text \<open>
  Claim C10, as stated, fails: a response with no \<open>invalidityReasons\<close> and the rank
  \<open>null\<close> (present, and not a number) fails a candidate that passes the ten earlier
  checks, because \<open>Number(null)\<close> is 0 and 0 < 25.
\<close>

theorem C10_counterexample:
  "truthyStr (kusamaStash exCandidate)
   \<and> axios_get exWorldNullRank (lookupUrl exWorldNullRank exCandidate) = Some (JObj [(''rank'', JNull)])
   \<and> getProp (JObj [(''rank'', JNull)]) ''invalidityReasons'' = Inr None
   \<and> getProp (JObj [(''rank'', JNull)]) ''rank'' = Inr (Some JNull)
   \<and> \<not> numericJson (Some JNull)
   \<and> reaches 10 exOtv exWorldNullRank exCandidate exTable
   \<and> snd (checkSingleCandidate exOtv exWorldNullRank exCandidate exTable) =
       Inr (False, [Str ''alice'',
          Str '' has a Kusama stash with lower than 25 rank in the Kusama OTV programme: '',
          Js (Some JNull), Str ''.''])"
  by (simp add: eval_defs exWorldNullRank_def lookupUrl_def)

text \<open>
  Claim C10, amended. The candidate has a kusama stash, the lookup succeeds, the response
  has no \<open>invalidityReasons\<close> or the empty string, and its rank is missing or is a value
  that \<open>Number\<close> turns into NaN. Then the rank comparison does not fail the candidate:
  the cross-network block falls through and the verdict is that of the ten earlier blocks.
\<close>

theorem C10_nan_rank_passes:
  assumes "truthyStr (kusamaStash c)"
    and "axios_get w (lookupUrl w c) = Some data"
    and "getProp data ''invalidityReasons'' = Inr reasons"
    and "reasons = None \<or> reasons = Some (JStr [])"
    and "getProp data ''rank'' = Inr rnk"
    and "toNumber (builtins w) rnk = NaN"
  shows "snd (kusamaBlock w c) = Next
         \<and> snd (checkSingleCandidate this w c tbl) = snd (runBlocks (butlast (blocks this w c tbl)))"
proof -
  have f: "\<not> truthy reasons"
    using assms(4) by auto
  have k: "snd (kusamaBlock w c) = Next"
    using assms(1,2,3,5,6) f
    by (simp add: kusamaBlock_def lookupUrl_def Let_def)
  then obtain es where es: "kusamaBlock w c = (es, Next)"
    by (cases "kusamaBlock w c") simp
  have "snd (checkSingleCandidate this w c tbl) =
      snd (runBlocks (butlast (blocks this w c tbl) @ [(es, Next)]))"
    unfolding checkSingleCandidate_def using blocks_snoc [of this w c tbl] es by simp
  then show ?thesis
    using k by (simp add: runBlocks_snoc_Next)
qed

theorem C10_witness:
  "truthyStr (kusamaStash exCandidate)
   \<and> axios_get exWorldNoRank (lookupUrl exWorldNoRank exCandidate) = Some (JObj [(''invalidityReasons'', JStr [])])
   \<and> getProp (JObj [(''invalidityReasons'', JStr [])]) ''invalidityReasons'' = Inr (Some (JStr []))
   \<and> getProp (JObj [(''invalidityReasons'', JStr [])]) ''rank'' = Inr None
   \<and> toNumber (builtins exWorldNoRank) None = NaN
   \<and> snd (kusamaBlock exWorldNoRank exCandidate) = Next
   \<and> snd (checkSingleCandidate exOtv exWorldNoRank exCandidate exTable) = Inr (True, [])"
proof -
  have h1: "truthyStr (kusamaStash exCandidate)"
    by (simp add: ex_defs truthyStr_def)
  have h2: "axios_get exWorldNoRank (lookupUrl exWorldNoRank exCandidate) = Some (JObj [(''invalidityReasons'', JStr [])])"
    by (simp add: exWorldNoRank_def)
  have h3: "getProp (JObj [(''invalidityReasons'', JStr [])]) ''invalidityReasons'' = Inr (Some (JStr []))"
    by simp
  have h4: "Some (JStr []) = None \<or> Some (JStr []) = Some (JStr [])"
    by simp
  have h5: "getProp (JObj [(''invalidityReasons'', JStr [])]) ''rank'' = Inr None"
    by simp
  have h6: "toNumber (builtins exWorldNoRank) None = NaN"
    by simp
  have e: "snd (runBlocks (butlast (blocks exOtv exWorldNoRank exCandidate exTable))) = Inr (True, [])"
    by (simp add: eval_defs exWorldNoRank_def)
  from C10_nan_rank_passes [OF h1 h2 h3 h4 h5 h6, of exOtv exTable] h1 h2 h3 h5 h6 e
  show ?thesis by simp
qed

end
